theory Spec2Isabelle
  imports Complex_Main "HOL-Library.Sublist"
begin

section \<open>Shared data: event kinds and payloads\<close>

text \<open>
  The enumeration \<open>grpcPuppet.EventType\<close> of the wire schema, with one constructor for
  every member that the two switch statements of the sources name
  (\<open>connectPuppetEventToStreamingCall\<close> in event-stream-manager.ts and
  \<open>onGrpcStreamEvent\<close> in puppet-service.ts). The wire value is a number, so a received
  envelope may carry a value outside the enumeration: \<open>EVENT_TYPE_OTHER n\<close> stands for
  those, and takes the \<open>default\<close> branch of the client's switch.
\<close>

datatype EventType =
    EVENT_TYPE_UNSPECIFIED
  | EVENT_TYPE_HEARTBEAT
  | EVENT_TYPE_MESSAGE
  | EVENT_TYPE_DONG
  | EVENT_TYPE_ERROR
  | EVENT_TYPE_FRIENDSHIP
  | EVENT_TYPE_ROOM_INVITE
  | EVENT_TYPE_ROOM_JOIN
  | EVENT_TYPE_ROOM_LEAVE
  | EVENT_TYPE_ROOM_TOPIC
  | EVENT_TYPE_ROOM_ANNOUNCE
  | EVENT_TYPE_SCAN
  | EVENT_TYPE_READY
  | EVENT_TYPE_RESET
  | EVENT_TYPE_LOGIN
  | EVENT_TYPE_LOGOUT
  | EVENT_TYPE_DIRTY
  | EVENT_TYPE_POST
  | EVENT_TYPE_POST_COMMENT
  | EVENT_TYPE_POST_TAP
  | EVENT_TYPE_TAG
  | EVENT_TYPE_TAG_GROUP
  | EVENT_TYPE_VERIFY_CODE
  | EVENT_TYPE_OTHER nat

text \<open>
  A payload object, as \<open>JSON.stringify\<close> writes it and \<open>JSON.parse\<close> reads it: the
  fields of the object with their values. The code reads two fields by name,
  \<open>contactId\<close> (login) and \<open>data\<close> (logout); a field that is absent reads as
  \<open>undefined\<close>, which is \<open>None\<close> here.
\<close>

type_synonym json = "(string \<times> string) list"

definition field :: "string \<Rightarrow> json \<Rightarrow> string option" where
  "field k obj = map_of obj k"

section \<open>Event Stream Sink (server): event-stream-manager.ts\<close>

text \<open>
  The manager's own fields are \<open>eventStream\<close>, \<open>puppetListening\<close> and
  \<open>offCallbackList\<close>. A stream handle is a number naming the
  \<open>grpc.ServerWritableStream\<close> object. A listener closure
  \<open>(payload) => this.grpcEmit(T, payload)\<close> registered under the event name \<open>n\<close> is the pair
  \<open>(n, T)\<close>; the closure \<open>off\<close> pushed on \<open>offCallbackList\<close> is the same pair, and calling
  it is \<open>puppet.off(n, listener)\<close>.

  The objects around the manager are part of the state as far as the manager acts on
  them: the puppet (\<open>puppet_isLoggedIn\<close>, \<open>puppet_currentUserId\<close>,
  \<open>puppet_readyIndicator\<close>, and \<open>puppetListeners\<close>, the listeners it holds), the streams
  (\<open>written\<close>: every envelope written, oldest first, with the handle it went to;
  \<open>ended\<close>: the handles whose \<open>end()\<close> ran; \<open>streamHandlers\<close>: the teardown handlers
  registered with \<open>stream.on\<close>; \<open>streamErrors\<close>: the errors emitted on a handle), the
  timers (\<open>timers\<close>: each pending \<open>setTimeout\<close> with its delay and the \<open>grpcEmit\<close> it
  will run), the log \<open>offCalled\<close> of the unregistration callbacks that ran, and
  \<open>scanPayload\<close> of puppetImplementation.
\<close>

datatype StreamSignal = Cancelled | Error | Finish | End | Close

datatype error = CanNotSetTwice | NoEventStream | NoEventStreamFound

datatype status = ALREADY_EXISTS

record Sink =
  eventStream :: "nat option"
  puppetListening :: bool
  offCallbackList :: "(string \<times> EventType) list"
  puppet_isLoggedIn :: bool
  puppet_currentUserId :: string
  puppet_readyIndicator :: bool
  puppetListeners :: "(string \<times> EventType) list"
  written :: "(nat \<times> EventType \<times> json) list"
  ended :: "nat list"
  streamHandlers :: "(nat \<times> StreamSignal) list"
  streamErrors :: "(nat \<times> status \<times> string) list"
  timers :: "(nat \<times> EventType \<times> json) list"
  offCalled :: "(string \<times> EventType) list"
  scanPayload :: "json option"

definition busy :: "Sink \<Rightarrow> bool" where
  "busy s = (eventStream s \<noteq> None)"

text \<open>
  \<open>grpcEmit\<close>: the envelope is written to the attached handle; with no handle attached it
  is dropped (a warning is logged).
\<close>

definition grpcEmit :: "EventType \<Rightarrow> json \<Rightarrow> Sink \<Rightarrow> Sink" where
  "grpcEmit type obj s =
     (case eventStream s of
        Some stream \<Rightarrow> s\<lparr>written := written s @ [(stream, type, obj)]\<rparr>
      | None \<Rightarrow> s)"

text \<open>
  Calling an \<open>off\<close> closure: \<open>puppet.off\<close> takes the most recently added instance of the
  listener out of the puppet's list.
\<close>

definition removeListener :: "'a \<Rightarrow> 'a list \<Rightarrow> 'a list" where
  "removeListener l ls = rev (remove1 l (rev ls))"

definition callOff :: "string \<times> EventType \<Rightarrow> Sink \<Rightarrow> Sink" where
  "callOff func s =
     s\<lparr>puppetListeners := removeListener func (puppetListeners s),
       offCalled := offCalled s @ [func]\<rparr>"

text \<open>\<open>removePuppetListeners\<close>: pop and call until the list is empty.\<close>

function removePuppetListeners :: "Sink \<Rightarrow> Sink" where
  "removePuppetListeners s =
     (if length (offCallbackList s) > 0
      then let func = last (offCallbackList s);
               s1 = s\<lparr>offCallbackList := butlast (offCallbackList s)\<rparr>
           in removePuppetListeners (callOff func s1)
      else s)"
  by pat_completeness auto
termination
  by (relation "measure (\<lambda>s. length (offCallbackList s))") (auto simp: callOff_def)

declare removePuppetListeners.simps [simp del]

text \<open>
  The switch of \<open>connectPuppetEventToStreamingCall\<close>: the envelope type of the listener
  registered for an event name; \<open>reset\<close> registers nothing, and neither does a name the
  switch does not know (the \<open>default\<close> branch logs a warning).
\<close>

definition listenerFor :: "string \<Rightarrow> EventType option" where
  "listenerFor eventName =
     (if eventName = ''dong'' then Some EVENT_TYPE_DONG
      else if eventName = ''dirty'' then Some EVENT_TYPE_DIRTY
      else if eventName = ''error'' then Some EVENT_TYPE_ERROR
      else if eventName = ''heartbeat'' then Some EVENT_TYPE_HEARTBEAT
      else if eventName = ''friendship'' then Some EVENT_TYPE_FRIENDSHIP
      else if eventName = ''login'' then Some EVENT_TYPE_LOGIN
      else if eventName = ''logout'' then Some EVENT_TYPE_LOGOUT
      else if eventName = ''message'' then Some EVENT_TYPE_MESSAGE
      else if eventName = ''post'' then Some EVENT_TYPE_POST
      else if eventName = ''ready'' then Some EVENT_TYPE_READY
      else if eventName = ''room-invite'' then Some EVENT_TYPE_ROOM_INVITE
      else if eventName = ''room-join'' then Some EVENT_TYPE_ROOM_JOIN
      else if eventName = ''room-leave'' then Some EVENT_TYPE_ROOM_LEAVE
      else if eventName = ''room-topic'' then Some EVENT_TYPE_ROOM_TOPIC
      else if eventName = ''room-announce'' then Some EVENT_TYPE_ROOM_ANNOUNCE
      else if eventName = ''scan'' then Some EVENT_TYPE_SCAN
      else if eventName = ''tag'' then Some EVENT_TYPE_TAG
      else if eventName = ''tag-group'' then Some EVENT_TYPE_TAG_GROUP
      else if eventName = ''post-comment'' then Some EVENT_TYPE_POST_COMMENT
      else if eventName = ''post-tap'' then Some EVENT_TYPE_POST_TAP
      else if eventName = ''verify-code'' then Some EVENT_TYPE_VERIFY_CODE
      else if eventName = ''reset'' then None
      else None)"

definition connectOne :: "string \<Rightarrow> Sink \<Rightarrow> Sink" where
  "connectOne eventName s =
     (case listenerFor eventName of
        Some type \<Rightarrow>
          s\<lparr>puppetListeners := puppetListeners s @ [(eventName, type)],
            offCallbackList := offCallbackList s @ [(eventName, type)]\<rparr>
      | None \<Rightarrow> s)"

text \<open>
  \<open>eventNameList\<close> is \<open>Object.keys(PUPPET.types.PUPPET_EVENT_DICT)\<close>, a table of the
  puppet library: a parameter here.
\<close>

definition connectPuppetEventToStreamingCall :: "string list \<Rightarrow> Sink \<Rightarrow> Sink" where
  "connectPuppetEventToStreamingCall eventNameList s =
     (fold connectOne eventNameList s)\<lparr>puppetListening := True\<rparr>"

text \<open>
  The five handlers that \<open>onStreamingCallEnd\<close> registers on the stream. Their bodies
  differ in the log message only. Each reads \<open>this.eventStream\<close>, the manager's field,
  not the stream it was registered on.
\<close>

fun streamingCallEnd :: "StreamSignal \<Rightarrow> Sink \<Rightarrow> Sink" where
  "streamingCallEnd Cancelled s =
     (let s1 = (if puppetListening s then removePuppetListeners s else s)
      in if eventStream s1 \<noteq> None then s1\<lparr>eventStream := None\<rparr> else s1)"
| "streamingCallEnd Error s =
     (let s1 = (if puppetListening s then removePuppetListeners s else s)
      in if eventStream s1 \<noteq> None then s1\<lparr>eventStream := None\<rparr> else s1)"
| "streamingCallEnd Finish s =
     (let s1 = (if puppetListening s then removePuppetListeners s else s)
      in if eventStream s1 \<noteq> None then s1\<lparr>eventStream := None\<rparr> else s1)"
| "streamingCallEnd End s =
     (let s1 = (if puppetListening s then removePuppetListeners s else s)
      in if eventStream s1 \<noteq> None then s1\<lparr>eventStream := None\<rparr> else s1)"
| "streamingCallEnd Close s =
     (let s1 = (if puppetListening s then removePuppetListeners s else s)
      in if eventStream s1 \<noteq> None then s1\<lparr>eventStream := None\<rparr> else s1)"

definition onStreamingCallEnd :: "Sink \<Rightarrow> error + Sink" where
  "onStreamingCallEnd s =
     (case eventStream s of
        None \<Rightarrow> Inl NoEventStreamFound
      | Some stream \<Rightarrow>
          Inr (s\<lparr>streamHandlers := streamHandlers s @
                 [(stream, Cancelled), (stream, Error), (stream, Finish),
                  (stream, End), (stream, Close)]\<rparr>))"

text \<open>
  A teardown signal of the stream \<open>stream\<close> runs the handler registered on it for that
  signal, if there is one. \<open>signals\<close> delivers a sequence of them.
\<close>

definition signal :: "nat \<Rightarrow> StreamSignal \<Rightarrow> Sink \<Rightarrow> Sink" where
  "signal stream sg s =
     (if (stream, sg) \<in> set (streamHandlers s) then streamingCallEnd sg s else s)"

definition signals :: "nat \<Rightarrow> StreamSignal list \<Rightarrow> Sink \<Rightarrow> Sink" where
  "signals stream sgs s = fold (signal stream) sgs s"

text \<open>
  \<open>start\<close>. All of it runs in one turn of the event loop; the ready envelope alone is
  left to a timer of 15 seconds.
\<close>

definition start :: "string list \<Rightarrow> nat \<Rightarrow> Sink \<Rightarrow> error + Sink" where
  "start eventNameList stream s =
     (if eventStream s \<noteq> None then Inl CanNotSetTwice
      else
        let s1 = removePuppetListeners s;
            s2 = s1\<lparr>eventStream := Some stream\<rparr>;
            s3 = connectPuppetEventToStreamingCall eventNameList s2
        in case onStreamingCallEnd s3 of
             Inl e \<Rightarrow> Inl e
           | Inr s4 \<Rightarrow>
               let s5 = grpcEmit EVENT_TYPE_HEARTBEAT
                          [(''data'', ''Wechaty Puppet gRPC stream connect successfully'')] s4;
                   s6 = (if puppet_isLoggedIn s5
                         then grpcEmit EVENT_TYPE_LOGIN
                                [(''contactId'', puppet_currentUserId s5)] s5
                         else s5);
                   s7 = (if puppet_readyIndicator s6
                         then s6\<lparr>timers := timers s6 @
                                 [(15 * 1000, EVENT_TYPE_READY, [(''data'', ''ready'')])]\<rparr>
                         else s6)
               in Inr s7)"

text \<open>A timer fires: its callback is the \<open>grpcEmit\<close> it holds.\<close>

definition fireTimer :: "nat \<times> EventType \<times> json \<Rightarrow> Sink \<Rightarrow> Sink" where
  "fireTimer tm s =
     grpcEmit (fst (snd tm)) (snd (snd tm)) (s\<lparr>timers := remove1 tm (timers s)\<rparr>)"

definition stop :: "Sink \<Rightarrow> error + Sink" where
  "stop s =
     (case eventStream s of
        None \<Rightarrow> Inl NoEventStream
      | Some stream \<Rightarrow>
          let s1 = removePuppetListeners s;
              s2 = s1\<lparr>ended := ended s1 @ [stream]\<rparr>
          in Inr (s2\<lparr>eventStream := None\<rparr>))"

text \<open>
  The handler \<open>event\<close> of puppetImplementation: a call that finds the manager busy gets
  the error ALREADY_EXISTS emitted on its own stream, and nothing else happens.
\<close>

definition event :: "string list \<Rightarrow> nat \<Rightarrow> Sink \<Rightarrow> error + Sink" where
  "event eventNameList streamingCall s =
     (if busy s
      then Inr (s\<lparr>streamErrors := streamErrors s @
                  [(streamingCall, ALREADY_EXISTS,
                    ''GrpcServerImpl.event() can not call twice.'')]\<rparr>)
      else case start eventNameList streamingCall s of
             Inl e \<Rightarrow> Inl e
           | Inr s1 \<Rightarrow>
               (case scanPayload s1 of
                  Some p \<Rightarrow> Inr (grpcEmit EVENT_TYPE_SCAN p s1)
                | None \<Rightarrow> Inr s1))"

section \<open>Puppet Session (client): puppet-service.ts\<close>

subsection \<open>State\<close>

text \<open>
  A received envelope. \<open>getPayload\<close> is the payload string as \<open>JSON.parse\<close> reads it:
  \<open>None\<close> when the string is not JSON and \<open>JSON.parse\<close> throws. \<open>getSeq\<close> is a signed
  number, 0 when the sender set no sequence number.
\<close>

record EventResponse =
  getType :: EventType
  getPayload :: "json option"
  getSeq :: int

text \<open>
  The three keys of \<open>_payloadStore.miscellaneous\<close>, which is also the shape of the object
  that \<open>getMiscellaneousStoreData\<close> returns and \<open>setMiscellaneousStoreData\<close> takes. The
  code stores the sequence number and the timestamp as decimal strings
  (\<open>seq.toString()\<close>, \<open>String(Date.now())\<close>) and reads them back with \<open>Number\<close>; the
  record keeps the numbers.
\<close>

record MiscellaneousStoreData =
  lastEventSeq :: "int option"
  lastEventTimestamp :: "int option"
  accountId :: "string option"

text \<open>
  What the session does to the objects around it, in the order it does it: events
  emitted to the local listeners (\<open>this.emit\<close>), calls of the base class
  (\<open>this.login\<close>, \<open>this.logout\<close>, \<open>super.reset\<close>), of \<open>fastDirty\<close>, of the transport
  manager (\<open>stopStream\<close>, \<open>startStream\<close> under its timeout, \<open>on\<close> and \<open>off\<close> of the two
  transient data listeners), a \<open>setTimeout\<close> sleep, a promise of the handler rejected
  with nobody awaiting it, and an error thrown by a listener into the emitter that
  called it.
\<close>

datatype Listener = OnLogin | OnReady

datatype Effect =
    Emit string json
  | Login "string option"
  | Logout "string option"
  | FastDirty json
  | Rejected
  | Thrown
  | StopStream
  | StartStream nat "int option" "string option"
  | Sleep nat
  | ListenerOn Listener
  | ListenerOff Listener
  | SuperReset

text \<open>
  The fields of the session that the event handler and \<open>reset\<close> read or write.
  \<open>grpcManager\<close> tells whether \<open>_grpcManager\<close> is defined; \<open>isLoggedIn\<close> and
  \<open>readyIndicator\<close> are the base class's state queries; \<open>miscellaneous\<close> is
  \<open>_payloadStore.miscellaneous\<close> (\<open>None\<close> while it is undefined, where every \<open>?.\<close> access
  does nothing); \<open>DISABLE_EVENT_CACHE\<close> is the environment variable
  WECHATY_PUPPET_SERVICE_DISABLE_EVENT_CACHE; \<open>effects\<close> is the log of effects, oldest
  first.
\<close>

record PuppetService =
  grpcManager :: bool
  isLoggedIn :: bool
  readyIndicator :: bool
  reconnectIndicator :: bool
  waitingForLogin :: bool
  waitingForReady :: bool
  timeoutMilliseconds :: int
  miscellaneous :: "MiscellaneousStoreData option"
  DISABLE_EVENT_CACHE :: bool
  effects :: "Effect list"

text \<open>
  The constructor, as far as these fields go: \<open>options.timeoutSeconds || 2\<close> takes 2 when
  the option is undefined or 0.
\<close>

definition constructor :: "int option \<Rightarrow> bool \<Rightarrow> PuppetService" where
  "constructor timeoutSeconds disableEventCache =
     \<lparr>grpcManager = False, isLoggedIn = False, readyIndicator = False,
      reconnectIndicator = False, waitingForLogin = False, waitingForReady = False,
      timeoutMilliseconds =
        (case timeoutSeconds of None \<Rightarrow> 2 | Some t \<Rightarrow> if t = 0 then 2 else t) * 1000 * 60,
      miscellaneous = None, DISABLE_EVENT_CACHE = disableEventCache, effects = []\<rparr>"

definition eff :: "Effect \<Rightarrow> PuppetService \<Rightarrow> PuppetService" where
  "eff e s = s\<lparr>effects := effects s @ [e]\<rparr>"

subsection \<open>The watermark store\<close>

definition getMiscellaneousStoreData :: "int \<Rightarrow> PuppetService \<Rightarrow> MiscellaneousStoreData" where
  "getMiscellaneousStoreData now s =
     (if DISABLE_EVENT_CACHE s
      then \<lparr>lastEventSeq = None, lastEventTimestamp = None, accountId = Some []\<rparr>
      else
        let ts = (case miscellaneous s of None \<Rightarrow> None | Some m \<Rightarrow> lastEventTimestamp m);
            seq0 = (case miscellaneous s of None \<Rightarrow> None | Some m \<Rightarrow> lastEventSeq m);
            seq1 = (if now - (case ts of None \<Rightarrow> 0 | Some t \<Rightarrow> t) > timeoutMilliseconds s
                    then None else seq0);
            acc = (case miscellaneous s of None \<Rightarrow> None | Some m \<Rightarrow> accountId m)
        in \<lparr>lastEventSeq = seq1, lastEventTimestamp = ts, accountId = acc\<rparr>)"

definition setMiscellaneousStoreData :: "MiscellaneousStoreData \<Rightarrow> PuppetService \<Rightarrow> PuppetService" where
  "setMiscellaneousStoreData d s =
     (if DISABLE_EVENT_CACHE s then s
      else case miscellaneous s of
             None \<Rightarrow> s
           | Some m \<Rightarrow>
               let m1 = (case lastEventSeq d of None \<Rightarrow> m | Some v \<Rightarrow> m\<lparr>lastEventSeq := Some v\<rparr>);
                   m2 = (case lastEventTimestamp d of None \<Rightarrow> m1
                         | Some v \<Rightarrow> m1\<lparr>lastEventTimestamp := Some v\<rparr>);
                   m3 = (case accountId d of None \<Rightarrow> m2 | Some v \<Rightarrow> m2\<lparr>accountId := Some v\<rparr>)
               in s\<lparr>miscellaneous := Some m3\<rparr>)"

definition resetMiscellaneousStoreData :: "PuppetService \<Rightarrow> PuppetService" where
  "resetMiscellaneousStoreData s =
     (if DISABLE_EVENT_CACHE s then s
      else case miscellaneous s of
             None \<Rightarrow> s
           | Some m \<Rightarrow>
               s\<lparr>miscellaneous :=
                   Some (m\<lparr>lastEventSeq := None, lastEventTimestamp := None, accountId := None\<rparr>)\<rparr>)"

subsection \<open>The event handler \<open>onGrpcStreamEvent\<close>\<close>

text \<open>
  \<open>onGrpcStreamEvent\<close> is an async function that the transport manager's emitter calls as
  the first listener of \<open>data\<close>, and whose promise nobody awaits (line 214). Such a
  function runs until its first \<open>await\<close> and returns to the emitter there; what follows
  an \<open>await\<close> runs later, on the state it then finds: the other listeners of the same
  envelope, the handlers of other envelopes and \<open>reset\<close> may have run meanwhile.

  A \<open>task\<close> is what is left of such a function at an \<open>await\<close>: \<open>Done\<close>, or \<open>Await k\<close>,
  where \<open>k\<close> takes the state found on resumption, runs to the next \<open>await\<close> (or to the end)
  and returns the state it leaves with the task left then. Every part of the handler
  returns the state at its first \<open>await\<close> together with the task left. \<open>step\<close> resumes a
  task once; \<open>run\<close> resumes it again and again until it is done, with nothing else
  running in between; \<open>resume\<close> does so from the state at the first \<open>await\<close>.

  The awaits are those of the handler itself (lines 265, 267, 295, 297, 298, 316 and
  328). An awaited call of \<open>getMiscellaneousStoreData\<close>, \<open>setMiscellaneousStoreData\<close> or
  \<open>resetMiscellaneousStoreData\<close> is one step: the awaits inside it are not told apart,
  and the store is read or written on the state found when the handler resumes from
  the call. A call of \<open>fastDirty\<close>, \<open>this.login\<close> or \<open>this.logout\<close> is logged where the call
  is made. \<open>now\<close> is the reading of \<open>Date.now()\<close> during the handler.

  \<open>EventTypeRev\<close>, the table of the names of the event types, is not among the sources;
  the handler takes it as the parameter \<open>typeName\<close>.
\<close>

datatype task = Done | Await "PuppetService \<Rightarrow> PuppetService \<times> task"

type_synonym suspended = "PuppetService \<times> task"

primrec step :: "task \<Rightarrow> PuppetService \<Rightarrow> PuppetService \<times> task" where
  "step Done s = (s, Done)"
| "step (Await k) s = k s"

primrec run :: "task \<Rightarrow> PuppetService \<Rightarrow> PuppetService" where
  "run Done = (\<lambda>s. s)"
| "run (Await k) = (\<lambda>s. case map_prod id run (k s) of (s', rest) \<Rightarrow> rest s')"

definition resume :: "suspended \<Rightarrow> PuppetService" where
  "resume p = run (snd p) (fst p)"

text \<open>\<open>this.emit(name, JSON.parse(payload))\<close>: a payload that does not parse rejects the handler.\<close>

definition emitParsed :: "string \<Rightarrow> EventResponse \<Rightarrow> PuppetService \<Rightarrow> PuppetService" where
  "emitParsed name ev s =
     (case getPayload ev of
        None \<Rightarrow> eff Rejected s
      | Some payload \<Rightarrow> eff (Emit name payload) s)"

text \<open>Lines 258 to 262: the synthetic heartbeat for every envelope that is not a heartbeat.\<close>

definition syntheticHeartbeat :: "(EventType \<Rightarrow> string) \<Rightarrow> EventResponse \<Rightarrow> PuppetService \<Rightarrow> PuppetService" where
  "syntheticHeartbeat typeName ev s =
     (if getType ev \<noteq> EVENT_TYPE_HEARTBEAT
      then eff (Emit ''heartbeat''
                  [(''data'', ''onGrpcStreamEvent('' @ typeName (getType ev) @ '')'')]) s
      else s)"

text \<open>
  The test of line 266 on the object that line 265 loaded:
  \<open>!lastEventSeq || (seq > Number(lastEventSeq) || seq === 1)\<close>.
\<close>

definition watermarkDue :: "int \<Rightarrow> MiscellaneousStoreData \<Rightarrow> bool" where
  "watermarkDue seq loaded =
     (case lastEventSeq loaded of None \<Rightarrow> True | Some w \<Rightarrow> seq > w \<or> seq = 1)"

text \<open>The write of lines 267 to 270.\<close>

definition storeWatermark :: "int \<Rightarrow> EventResponse \<Rightarrow> PuppetService \<Rightarrow> PuppetService" where
  "storeWatermark now ev s =
     setMiscellaneousStoreData
       \<lparr>lastEventSeq = Some (getSeq ev), lastEventTimestamp = Some now, accountId = None\<rparr> s"

text \<open>
  Lines 264 to 272 when nothing else runs between the load and the write: the two steps
  in one.
\<close>

definition updateWatermark :: "int \<Rightarrow> EventResponse \<Rightarrow> PuppetService \<Rightarrow> PuppetService" where
  "updateWatermark now ev s =
     (if watermarkDue (getSeq ev) (getMiscellaneousStoreData now s)
      then storeWatermark now ev s else s)"

text \<open>
  Lines 293 to 309: the login case after the swallow test and the parse. With the event
  cache enabled it awaits the load (line 295) and, for another account, the reset (line
  297) and the write (line 298) of the store, before it calls \<open>this.login\<close>.
\<close>

definition loginCase :: "int \<Rightarrow> json \<Rightarrow> PuppetService \<Rightarrow> suspended" where
  "loginCase now loginPayload s =
     (if \<not> DISABLE_EVENT_CACHE s
      then (s, Await (\<lambda>s1.
              if accountId (getMiscellaneousStoreData now s1) \<noteq> field ''contactId'' loginPayload
              then (s1, Await (\<lambda>s2.
                      (resetMiscellaneousStoreData s2, Await (\<lambda>s3.
                         (eff (Login (field ''contactId'' loginPayload))
                            (setMiscellaneousStoreData
                               \<lparr>lastEventSeq = None, lastEventTimestamp = None,
                                accountId = field ''contactId'' loginPayload\<rparr> s3),
                          Done)))))
              else (eff (Login (field ''contactId'' loginPayload)) s1, Done)))
      else (eff (Login (field ''contactId'' loginPayload)) s, Done))"

text \<open>Lines 314 to 324: the logout case.\<close>

definition logoutCase :: "json \<Rightarrow> PuppetService \<Rightarrow> suspended" where
  "logoutCase logoutPayload s =
     (if \<not> DISABLE_EVENT_CACHE s
      then (s, Await (\<lambda>s1.
              (eff (Logout (field ''data'' logoutPayload)) (resetMiscellaneousStoreData s1),
               Done)))
      else (eff (Logout (field ''data'' logoutPayload)) s, Done))"

text \<open>The switch, lines 274 to 388.\<close>

definition eventSwitch :: "int \<Rightarrow> EventResponse \<Rightarrow> PuppetService \<Rightarrow> suspended" where
  "eventSwitch now ev s =
     (case getType ev of
        EVENT_TYPE_DONG \<Rightarrow> (emitParsed ''dong'' ev s, Done)
      | EVENT_TYPE_ERROR \<Rightarrow> (emitParsed ''error'' ev s, Done)
      | EVENT_TYPE_HEARTBEAT \<Rightarrow> (emitParsed ''heartbeat'' ev s, Done)
      | EVENT_TYPE_FRIENDSHIP \<Rightarrow> (emitParsed ''friendship'' ev s, Done)
      | EVENT_TYPE_LOGIN \<Rightarrow>
          (if waitingForLogin s \<and> isLoggedIn s then (s, Done)
           else case getPayload ev of
                  None \<Rightarrow> (eff Rejected s, Done)
                | Some loginPayload \<Rightarrow> loginCase now loginPayload s)
      | EVENT_TYPE_LOGOUT \<Rightarrow>
          (case getPayload ev of
             None \<Rightarrow> (eff Rejected s, Done)
           | Some logoutPayload \<Rightarrow> logoutCase logoutPayload s)
      | EVENT_TYPE_DIRTY \<Rightarrow>
          (case getPayload ev of
             None \<Rightarrow> (eff Rejected s, Done)
           | Some payload \<Rightarrow>
               (eff (FastDirty payload) s, Await (\<lambda>s1. (eff (Emit ''dirty'' payload) s1, Done))))
      | EVENT_TYPE_MESSAGE \<Rightarrow> (emitParsed ''message'' ev s, Done)
      | EVENT_TYPE_POST \<Rightarrow> (emitParsed ''post'' ev s, Done)
      | EVENT_TYPE_POST_COMMENT \<Rightarrow> (emitParsed ''post-comment'' ev s, Done)
      | EVENT_TYPE_POST_TAP \<Rightarrow> (emitParsed ''post-tap'' ev s, Done)
      | EVENT_TYPE_READY \<Rightarrow>
          (if waitingForReady s \<and> readyIndicator s then (s, Done)
           else (emitParsed ''ready'' ev s, Done))
      | EVENT_TYPE_ROOM_INVITE \<Rightarrow> (emitParsed ''room-invite'' ev s, Done)
      | EVENT_TYPE_ROOM_JOIN \<Rightarrow> (emitParsed ''room-join'' ev s, Done)
      | EVENT_TYPE_ROOM_LEAVE \<Rightarrow> (emitParsed ''room-leave'' ev s, Done)
      | EVENT_TYPE_ROOM_TOPIC \<Rightarrow> (emitParsed ''room-topic'' ev s, Done)
      | EVENT_TYPE_ROOM_ANNOUNCE \<Rightarrow> (emitParsed ''room-announce'' ev s, Done)
      | EVENT_TYPE_SCAN \<Rightarrow> (emitParsed ''scan'' ev s, Done)
      | EVENT_TYPE_TAG \<Rightarrow> (emitParsed ''tag'' ev s, Done)
      | EVENT_TYPE_TAG_GROUP \<Rightarrow> (emitParsed ''tag-group'' ev s, Done)
      | EVENT_TYPE_RESET \<Rightarrow> (s, Done)
      | EVENT_TYPE_VERIFY_CODE \<Rightarrow> (emitParsed ''verify-code'' ev s, Done)
      | EVENT_TYPE_UNSPECIFIED \<Rightarrow> (s, Done)
      | EVENT_TYPE_OTHER n \<Rightarrow> (s, Done))"

text \<open>
  The handler. With a sequence number (one that is not 0) and the event cache enabled
  its first \<open>await\<close> is that of line 265, before the switch: resumed there it loads the
  store and tests the watermark; when the test holds it awaits the write (line 267), and
  resumed from that, with the write done, it goes on to the switch. Otherwise the
  switch starts in the same turn.
\<close>

definition onGrpcStreamEvent ::
  "(EventType \<Rightarrow> string) \<Rightarrow> int \<Rightarrow> EventResponse \<Rightarrow> PuppetService \<Rightarrow> suspended" where
  "onGrpcStreamEvent typeName now ev s =
     (let s1 = syntheticHeartbeat typeName ev s
      in if getSeq ev \<noteq> 0 \<and> \<not> DISABLE_EVENT_CACHE s1
         then (s1, Await (\<lambda>s2.
                 if watermarkDue (getSeq ev) (getMiscellaneousStoreData now s2)
                 then (s2, Await (\<lambda>s3. eventSwitch now ev (storeWatermark now ev s3)))
                 else eventSwitch now ev s2))
         else eventSwitch now ev s1)"

text \<open>
  Two envelopes that arrive in one turn of the event loop: the emitter calls the handler
  for each before either resumes; then the two handlers resume in turn, each for one
  step, and each runs to its end. The result is the state after the first handler has
  ended and the state after the second has.
\<close>

definition twoInFlight ::
  "(EventType \<Rightarrow> string) \<Rightarrow> int \<Rightarrow> EventResponse \<Rightarrow> EventResponse \<Rightarrow> PuppetService \<Rightarrow>
   PuppetService \<times> PuppetService" where
  "twoInFlight typeName now ev1 ev2 s =
     (let (a1, task1) = onGrpcStreamEvent typeName now ev1 s;
          (b1, task2) = onGrpcStreamEvent typeName now ev2 a1;
          (a2, task1') = step task1 b1;
          (b2, task2') = step task2 a2;
          a3 = run task1' b2
      in (a3, run task2' a3))"

subsection \<open>reset\<close>

text \<open>
  The two futures of \<open>reset\<close>: whether \<open>loginFuture\<close> and \<open>readyFuture\<close> are resolved.
\<close>

record Futures =
  loginFuture :: bool
  readyFuture :: bool

definition truthy :: "string option \<Rightarrow> bool" where
  "truthy v = (case v of None \<Rightarrow> False | Some a \<Rightarrow> a \<noteq> [])"

text \<open>
  The listener \<open>onLogin\<close> (lines 3097 to 3108); \<open>acc\<close> is the \<open>accountId\<close> that \<open>reset\<close>
  loaded. The first component of the result tells whether the listener threw: on a
  payload that does not parse (before it changes anything), and on a different account
  (after it has cleared \<open>waitingForLogin\<close>, and without resolving the future).
\<close>

definition onLogin :: "string option \<Rightarrow> EventResponse \<Rightarrow> PuppetService \<times> Futures \<Rightarrow> bool \<times> PuppetService \<times> Futures" where
  "onLogin acc ev = (\<lambda>(s, fut).
     if waitingForLogin s \<and> getType ev = EVENT_TYPE_LOGIN
     then (case getPayload ev of
             None \<Rightarrow> (True, eff Thrown s, fut)
           | Some payloadObj \<Rightarrow>
               let s1 = s\<lparr>waitingForLogin := False\<rparr>
               in if truthy acc \<and> field ''contactId'' payloadObj \<noteq> acc
                  then (True, eff Thrown s1, fut)
                  else (False, s1, fut\<lparr>loginFuture := True\<rparr>))
     else (False, s, fut))"

text \<open>The listener \<open>onReady\<close> (lines 3112 to 3118).\<close>

definition onReady :: "EventResponse \<Rightarrow> PuppetService \<times> Futures \<Rightarrow> PuppetService \<times> Futures" where
  "onReady ev = (\<lambda>(s, fut).
     if waitingForReady s \<and> getType ev = EVENT_TYPE_READY
     then (s\<lparr>waitingForReady := False\<rparr>, fut\<lparr>readyFuture := True\<rparr>)
     else (s, fut))"

text \<open>
  Modelled from the spec: the transport manager (grpc-manager.ts is not among the
  sources) emits one local \<open>data\<close> event per received envelope to its subscribers, which
  attach and detach as ordinary listeners. So when one envelope arrives while \<open>reset\<close>
  waits, the emitter calls the listeners of \<open>data\<close> one after the other in the order of
  their registration: \<open>onGrpcStreamEvent\<close> (registered by \<open>bridgeGrpcEventStream\<close> at
  start), \<open>onLogin\<close>, \<open>onReady\<close>; a listener that throws ends the round, and the error
  goes to the emitter's caller, not to \<open>reset\<close>. A listener that \<open>reset\<close> has taken off
  is no longer called: \<open>onLoginOn\<close> and \<open>onReadyOn\<close> tell which are registered.

  The model resumes the suspended handler right after the listeners and runs it to its
  end, before it delivers the next envelope and before \<open>reset\<close> goes on. In the program
  the handler resumes some turns of the microtask queue later: \<open>reset\<close> may have gone on
  before it (its \<open>finally\<close> takes the listener off first), and the next envelope may have
  arrived. What \<open>reset\<close> does meanwhile changes nothing that the handler reads (the
  listener has cleared the flag already), so this choice decides the place of the
  handler's effects in the log, not which effects there are. Handlers of envelopes that
  overlap are what \<open>step\<close> and \<open>twoInFlight\<close> are for.
\<close>

definition emitData ::
  "(EventType \<Rightarrow> string) \<Rightarrow> string option \<Rightarrow> bool \<Rightarrow> bool \<Rightarrow> int \<times> EventResponse \<Rightarrow>
   PuppetService \<times> Futures \<Rightarrow> PuppetService \<times> Futures" where
  "emitData typeName acc onLoginOn onReadyOn received = (\<lambda>(s, fut).
     let now = fst received; ev = snd received;
         (s1, rest) = onGrpcStreamEvent typeName now ev s;
         (threw, s2, fut2) = (if onLoginOn then onLogin acc ev (s1, fut) else (False, s1, fut));
         (s3, fut3) = (if onReadyOn \<and> \<not> threw then onReady ev (s2, fut2) else (s2, fut2))
     in (run rest s3, fut3))"

text \<open>
  Modelled from the spec: \<open>startStream\<close> of the transport manager, which is not among
  the sources, completes once the subscription is active, and data arrives after that.
  What the surroundings do during one call of \<open>reset\<close>: the readings of \<open>Date.now()\<close> in
  \<open>getMiscellaneousStoreData\<close> (\<open>loadedAt\<close>) and at line 3133 (\<open>startTime\<close>); the outcome
  of each \<open>startStream\<close> attempt, in order (\<open>Failed now\<close>: rejected or timed out after 30
  seconds, with the reading of \<open>Date.now()\<close> in the \<open>catch\<close>); the envelopes that arrive
  on the restarted stream before the login timer of 30 seconds fires
  (\<open>loginWindow\<close>), and those that arrive after them and before the ready timer of 20
  seconds fires (\<open>readyWindow\<close>), each with the reading of \<open>Date.now()\<close> at its arrival.
  No envelope arrives between \<open>stopStream\<close> and the return of \<open>startStream\<close>.
\<close>

datatype Attempt = Started | Failed int

record Script =
  loadedAt :: int
  startTime :: int
  attempts :: "Attempt list"
  loginWindow :: "(int \<times> EventResponse) list"
  readyWindow :: "(int \<times> EventResponse) list"

datatype Outcome = RegularReset | PassThisOne | Reconnected

text \<open>
  The retry loop, lines 3133 to 3151. The result tells whether the stream started
  (\<open>True\<close>) or the loop gave up, having cleared the reconnecting flag (\<open>False\<close>). The loop
  has no bound of its own: it returns \<open>None\<close> when the attempts of the script end before
  it has decided.
\<close>

fun retryLoop :: "int \<Rightarrow> int option \<Rightarrow> string option \<Rightarrow> Attempt list \<Rightarrow> PuppetService \<Rightarrow> (PuppetService \<times> bool) option" where
  "retryLoop t0 seq acc [] s = None"
| "retryLoop t0 seq acc (a # as) s =
     (let s1 = eff (StartStream (30 * 1000) seq acc) s
      in case a of
           Started \<Rightarrow> Some (s1, True)
         | Failed now \<Rightarrow>
             if real_of_int (now - t0) < real_of_int (timeoutMilliseconds s1) / 10
             then retryLoop t0 seq acc as (eff (Sleep 5000) s1)
             else Some (s1\<lparr>reconnectIndicator := False\<rparr>, False))"

text \<open>
  Waiting for a future under its timer (\<open>ResetLoginTimeout\<close>, 30 seconds, and
  \<open>ResetReadyTimeout\<close>, 20 seconds): the envelopes of the window are delivered one by one
  until the future is resolved; when they are used up the timer fires. \<open>awaitLogin\<close>
  returns the envelopes left over. A ready future that is resolved already lets
  \<open>awaitReady\<close> return at once.
\<close>

fun awaitLogin ::
  "(EventType \<Rightarrow> string) \<Rightarrow> string option \<Rightarrow> (int \<times> EventResponse) list \<Rightarrow>
   PuppetService \<times> Futures \<Rightarrow> (PuppetService \<times> Futures) \<times> (int \<times> EventResponse) list" where
  "awaitLogin typeName acc [] p = (p, [])"
| "awaitLogin typeName acc (e # es) p =
     (let p1 = emitData typeName acc True True e p
      in if loginFuture (snd p1) then (p1, es) else awaitLogin typeName acc es p1)"

fun awaitReady ::
  "(EventType \<Rightarrow> string) \<Rightarrow> string option \<Rightarrow> (int \<times> EventResponse) list \<Rightarrow>
   PuppetService \<times> Futures \<Rightarrow> PuppetService \<times> Futures" where
  "awaitReady typeName acc [] p = p"
| "awaitReady typeName acc (e # es) p =
     (if readyFuture (snd p) then p
      else awaitReady typeName acc es (emitData typeName acc False True e p))"

text \<open>\<open>super.reset()\<close> is the reset of the puppet library's base class: a call in the log.\<close>

definition superReset :: "PuppetService \<Rightarrow> PuppetService \<times> Outcome" where
  "superReset s = (eff SuperReset s, RegularReset)"

text \<open>\<open>reset\<close>, lines 3075 to 3176.\<close>

definition reset :: "(EventType \<Rightarrow> string) \<Rightarrow> Script \<Rightarrow> PuppetService \<Rightarrow> (PuppetService \<times> Outcome) option" where
  "reset typeName script s =
     (if \<not> grpcManager s then Some (superReset s)
      else if \<not> isLoggedIn s then Some (superReset s)
      else if reconnectIndicator s then Some (s, PassThisOne)
      else
        let s1 = s\<lparr>reconnectIndicator := True\<rparr>;
            s2 = eff StopStream s1;
            loaded = getMiscellaneousStoreData (loadedAt script) s2;
            seq = lastEventSeq loaded;
            acc = accountId loaded;
            s3 = eff (ListenerOn OnReady) (eff (ListenerOn OnLogin) s2)
        in case retryLoop (startTime script) seq acc (attempts script) s3 of
             None \<Rightarrow> None
           | Some (s4, False) \<Rightarrow> Some (superReset s4)
           | Some (s4, True) \<Rightarrow>
               let s5 = s4\<lparr>waitingForLogin := True, waitingForReady := True\<rparr>;
                   ((s6, fut), left) =
                      awaitLogin typeName acc (loginWindow script)
                        (s5, \<lparr>loginFuture = False, readyFuture = False\<rparr>);
                   s7 = eff (ListenerOff OnLogin)
                          (s6\<lparr>waitingForLogin := False, reconnectIndicator := False\<rparr>)
               in if \<not> loginFuture fut then Some (superReset s7)
                  else
                    let (s8, fut8) = awaitReady typeName acc (left @ readyWindow script) (s7, fut);
                        s9 = eff (ListenerOff OnReady) (s8\<lparr>waitingForReady := False\<rparr>)
                    in Some (s9, Reconnected))"


section \<open>Projections and examples used by the theorems\<close>

text \<open>
  Everything in the session that the event handler leaves alone: all fields but the
  store and the log of effects.
\<close>

definition flagsOf :: "PuppetService \<Rightarrow> bool \<times> bool \<times> bool \<times> bool \<times> bool \<times> bool \<times> int \<times> bool" where
  "flagsOf s = (grpcManager s, isLoggedIn s, readyIndicator s, reconnectIndicator s,
     waitingForLogin s, waitingForReady s, timeoutMilliseconds s, DISABLE_EVENT_CACHE s)"

text \<open>
  The manager with the handle \<open>stream\<close> attached, as \<open>start\<close> leaves it and \<open>grpcEmit\<close>
  keeps it: the handle is set, the puppet listeners have been connected, and the five
  teardown handlers are registered on the handle.
\<close>

definition attached :: "nat \<Rightarrow> Sink \<Rightarrow> bool" where
  "attached stream s =
     (eventStream s = Some stream \<and> puppetListening s \<and>
      list_all (\<lambda>sg. (stream, sg) \<in> set (streamHandlers s)) [Cancelled, Error, Finish, End, Close])"

text \<open>
  A server whose puppet is logged in as A1 and ready, with no stream attached; some event
  names of the puppet; the same server after \<open>start\<close> has attached the handle 1.
\<close>

definition idle :: Sink where
  "idle = \<lparr>eventStream = None, puppetListening = False, offCallbackList = [],
     puppet_isLoggedIn = True, puppet_currentUserId = ''A1'', puppet_readyIndicator = True,
     puppetListeners = [], written = [], ended = [], streamHandlers = [], streamErrors = [],
     timers = [], offCalled = [], scanPayload = None\<rparr>"

definition eventNames :: "string list" where
  "eventNames = [''heartbeat'', ''login'', ''logout'', ''message'', ''ready'', ''reset'']"

definition connected :: Sink where
  "connected = (case start eventNames 1 idle of Inr s \<Rightarrow> s | Inl e \<Rightarrow> idle)"

text \<open>
  A client session made by the constructor with no \<open>timeoutSeconds\<close> option and the event
  cache enabled, then started, logged in as A1 and ready, with the watermark 5 stored
  at time 1000; a table of type names; envelopes; scripts of the surroundings of \<open>reset\<close>.
\<close>

definition session :: PuppetService where
  "session = (constructor None False)
     \<lparr>grpcManager := True, isLoggedIn := True, readyIndicator := True,
      miscellaneous := Some \<lparr>lastEventSeq = Some 5, lastEventTimestamp = Some 1000,
                             accountId = Some ''A1''\<rparr>\<rparr>"

definition typeNames :: "EventType \<Rightarrow> string" where
  "typeNames t =
     (if t = EVENT_TYPE_LOGIN then ''EVENT_TYPE_LOGIN''
      else if t = EVENT_TYPE_READY then ''EVENT_TYPE_READY''
      else if t = EVENT_TYPE_MESSAGE then ''EVENT_TYPE_MESSAGE''
      else if t = EVENT_TYPE_HEARTBEAT then ''EVENT_TYPE_HEARTBEAT''
      else ''EVENT_TYPE_UNSPECIFIED'')"

definition loginEnvelope :: "int \<Rightarrow> string \<Rightarrow> EventResponse" where
  "loginEnvelope n a =
     \<lparr>getType = EVENT_TYPE_LOGIN, getPayload = Some [(''contactId'', a)], getSeq = n\<rparr>"

definition readyEnvelope :: "int \<Rightarrow> EventResponse" where
  "readyEnvelope n =
     \<lparr>getType = EVENT_TYPE_READY, getPayload = Some [(''data'', ''ready'')], getSeq = n\<rparr>"

definition messageEnvelope :: "int \<Rightarrow> EventResponse" where
  "messageEnvelope n =
     \<lparr>getType = EVENT_TYPE_MESSAGE, getPayload = Some [(''messageId'', ''m1'')], getSeq = n\<rparr>"

definition heartbeatEnvelope :: EventResponse where
  "heartbeatEnvelope =
     \<lparr>getType = EVENT_TYPE_HEARTBEAT, getPayload = Some [(''data'', ''tick'')], getSeq = 0\<rparr>"

text \<open>
  The stream restarts at the first attempt; the login for A1 and the ready envelope
  arrive with the sequence numbers 6 and 7.
\<close>

definition sequencedScript :: Script where
  "sequencedScript = \<lparr>loadedAt = 2000, startTime = 2000, attempts = [Started],
     loginWindow = [(2100, loginEnvelope 6 ''A1'')], readyWindow = [(2200, readyEnvelope 7)]\<rparr>"

text \<open>
  The first attempt fails 12 seconds after \<open>startTime\<close>; a second attempt would start
  the stream.
\<close>

definition twelveSecondsScript :: Script where
  "twelveSecondsScript = \<lparr>loadedAt = 2000, startTime = 2000,
     attempts = [Failed 14000, Started],
     loginWindow = [(14100, loginEnvelope 0 ''A1'')], readyWindow = [(14200, readyEnvelope 0)]\<rparr>"

text \<open>
  The stream restarts at the second attempt; a message arrives, then a login for the
  account A2.
\<close>

definition otherAccountScript :: Script where
  "otherAccountScript = \<lparr>loadedAt = 2000, startTime = 2000,
     attempts = [Failed 7000, Started],
     loginWindow = [(7100, messageEnvelope 0), (7200, loginEnvelope 0 ''A2'')],
     readyWindow = [(7300, readyEnvelope 0)]\<rparr>"




section \<open>The Event Stream Sink: lemmas\<close>

lemma removePuppetListeners_empty:
  "offCallbackList s = [] \<Longrightarrow> removePuppetListeners s = s"
  by (subst removePuppetListeners.simps) simp

text \<open>
  The loop in closed form: every callback of the list is called once, the last one
  first, and the list is left empty.
\<close>

lemma removePuppetListeners_eq:
  "removePuppetListeners s =
     s\<lparr>offCallbackList := [],
       puppetListeners := fold removeListener (rev (offCallbackList s)) (puppetListeners s),
       offCalled := offCalled s @ rev (offCallbackList s)\<rparr>"
proof (induction s rule: removePuppetListeners.induct)
  case (1 s)
  show ?case
  proof (cases "offCallbackList s = []")
    case True
    then show ?thesis by (simp add: removePuppetListeners_empty)
  next
    case False
    then obtain xs x where xs: "offCallbackList s = xs @ [x]"
      by (metis append_butlast_last_id)
    let ?s1 = "callOff x (s\<lparr>offCallbackList := xs\<rparr>)"
    have "removePuppetListeners s = removePuppetListeners ?s1"
      using xs by (subst removePuppetListeners.simps) (simp add: Let_def)
    also have "\<dots> = ?s1
       \<lparr>offCallbackList := [],
        puppetListeners := fold removeListener (rev (offCallbackList ?s1)) (puppetListeners ?s1),
        offCalled := offCalled ?s1 @ rev (offCallbackList ?s1)\<rparr>"
      using "1.IH" [OF _ refl refl] False xs by simp
    finally show ?thesis using xs by (simp add: callOff_def)
  qed
qed

lemma connectOne_frame:
  "eventStream (fold connectOne ns s) = eventStream s"
  "written (fold connectOne ns s) = written s"
  "streamHandlers (fold connectOne ns s) = streamHandlers s"
  "timers (fold connectOne ns s) = timers s"
  "puppet_isLoggedIn (fold connectOne ns s) = puppet_isLoggedIn s"
  "puppet_currentUserId (fold connectOne ns s) = puppet_currentUserId s"
  "puppet_readyIndicator (fold connectOne ns s) = puppet_readyIndicator s"
  by (induction ns arbitrary: s; simp add: connectOne_def split: option.splits)+

text \<open>What a successful \<open>start\<close> does to the handle, the streams and the timers.\<close>

lemma start_attaches:
  assumes "eventStream s = None"
  shows "\<exists>s'. start ns stream s = Inr s' \<and> attached stream s'
     \<and> written s' = written s @
          (stream, EVENT_TYPE_HEARTBEAT,
             [(''data'', ''Wechaty Puppet gRPC stream connect successfully'')]) #
          (if puppet_isLoggedIn s
           then [(stream, EVENT_TYPE_LOGIN, [(''contactId'', puppet_currentUserId s)])]
           else [])
     \<and> timers s' = timers s @
          (if puppet_readyIndicator s
           then [(15 * 1000, EVENT_TYPE_READY, [(''data'', ''ready'')])] else [])"
  using assms
  by (simp add: start_def Let_def removePuppetListeners_eq connectPuppetEventToStreamingCall_def
      onStreamingCallEnd_def grpcEmit_def connectOne_frame attached_def)

lemma streamingCallEnd_eq:
  "streamingCallEnd sg s =
     (let s1 = (if puppetListening s then removePuppetListeners s else s)
      in if eventStream s1 \<noteq> None then s1\<lparr>eventStream := None\<rparr> else s1)"
  by (cases sg) simp_all

lemma streamingCallEnd_idle:
  "eventStream s = None \<Longrightarrow> offCallbackList s = [] \<Longrightarrow> streamingCallEnd sg s = s"
  by (simp add: streamingCallEnd_eq removePuppetListeners_empty)

lemma signals_idle:
  "eventStream s = None \<Longrightarrow> offCallbackList s = [] \<Longrightarrow> signals stream sgs s = s"
  unfolding signals_def
  by (induction sgs) (simp_all add: signal_def streamingCallEnd_idle)

lemma signals_Cons: "signals stream (sg # sgs) s = signals stream sgs (signal stream sg s)"
  by (simp add: signals_def)

lemma attached_handler: "attached stream s \<Longrightarrow> (stream, sg) \<in> set (streamHandlers s)"
  by (cases sg) (simp_all add: attached_def)

lemma signals_detach:
  assumes "attached stream s"
  shows "eventStream (signals stream (sg # sgs) s) = None"
proof -
  let ?s1 = "signal stream sg s"
  have s1: "?s1 = (removePuppetListeners s)\<lparr>eventStream := None\<rparr>"
    using assms attached_handler [OF assms, of sg]
    by (simp add: signal_def streamingCallEnd_eq removePuppetListeners_eq attached_def)
  have idle: "eventStream ?s1 = None" "offCallbackList ?s1 = []"
    by (simp_all add: s1 removePuppetListeners_eq)
  show ?thesis
    using idle signals_idle [OF idle] by (simp add: signals_Cons)
qed

lemma attached_grpcEmit: "attached stream s \<Longrightarrow> attached stream (grpcEmit type obj s)"
  by (simp add: attached_def grpcEmit_def)

lemma idle_eventStream: "eventStream idle = None"
  by (simp add: idle_def)

lemma connected_eq:
  "start eventNames 1 idle = Inr connected"
  using start_attaches [OF idle_eventStream, of eventNames 1]
  by (auto simp: connected_def)

lemma connected_attached: "attached 1 connected"
  using start_attaches [OF idle_eventStream, of eventNames 1]
  by (auto simp: connected_def)

lemma connected_callbacks:
  "offCallbackList connected =
     [(''heartbeat'', EVENT_TYPE_HEARTBEAT), (''login'', EVENT_TYPE_LOGIN),
      (''logout'', EVENT_TYPE_LOGOUT), (''message'', EVENT_TYPE_MESSAGE),
      (''ready'', EVENT_TYPE_READY)]"
  by (simp add: connected_def start_def Let_def removePuppetListeners_eq
      connectPuppetEventToStreamingCall_def onStreamingCallEnd_def grpcEmit_def
      connectOne_def listenerFor_def eventNames_def idle_def)

lemma connected_fields:
  "eventStream connected = Some 1" "offCalled connected = []" "ended connected = []"
  "streamErrors connected = []"
  "written connected =
     [(1, EVENT_TYPE_HEARTBEAT, [(''data'', ''Wechaty Puppet gRPC stream connect successfully'')]),
      (1, EVENT_TYPE_LOGIN, [(''contactId'', ''A1'')])]"
  by (simp_all add: connected_def start_def Let_def removePuppetListeners_eq
      connectPuppetEventToStreamingCall_def onStreamingCallEnd_def grpcEmit_def
      connectOne_frame connectOne_def listenerFor_def eventNames_def idle_def)

section \<open>The Event Stream Sink: claims\<close>

text \<open>
  C5. Attaching a second event stream while one is attached always fails with a
  conflict error of its own, and leaves the first handle attached and working:
  \<open>start\<close> throws "can not set twice" before it changes anything; the handler \<open>event\<close>
  emits the status ALREADY_EXISTS on the stream of the new call and changes nothing
  else, so that the handle, the listeners and the written envelopes are as before, and
  an envelope emitted afterwards is written to the first handle.
\<close>

theorem second_attach_rejected:
  assumes "eventStream s = Some first"
  shows "start ns second s = Inl CanNotSetTwice
    \<and> event ns second s =
        Inr (s\<lparr>streamErrors := streamErrors s @
               [(second, ALREADY_EXISTS, ''GrpcServerImpl.event() can not call twice.'')]\<rparr>)
    \<and> (\<exists>s'. event ns second s = Inr s' \<and> eventStream s' = Some first
          \<and> offCallbackList s' = offCallbackList s \<and> puppetListeners s' = puppetListeners s
          \<and> written s' = written s \<and> ended s' = ended s
          \<and> written (grpcEmit type obj s') = written s @ [(first, type, obj)])"
  using assms by (simp add: start_def event_def busy_def grpcEmit_def)

theorem second_attach_rejected_witness:
  "eventStream connected = Some 1
   \<and> start eventNames 2 connected = Inl CanNotSetTwice
   \<and> event eventNames 2 connected =
        Inr (connected\<lparr>streamErrors :=
               [(2, ALREADY_EXISTS, ''GrpcServerImpl.event() can not call twice.'')]\<rparr>)
   \<and> (\<exists>s'. event eventNames 2 connected = Inr s' \<and> eventStream s' = Some 1
          \<and> written (grpcEmit EVENT_TYPE_MESSAGE [(''messageId'', ''m1'')] s') =
              written connected @ [(1, EVENT_TYPE_MESSAGE, [(''messageId'', ''m1'')])])"
proof -
  have h: "eventStream connected = Some 1" by (rule connected_fields)
  have e: "streamErrors connected = []" by (rule connected_fields)
  show ?thesis
    using h e second_attach_rejected [OF h, of eventNames 2 EVENT_TYPE_MESSAGE "[(''messageId'', ''m1'')]"]
    by auto
qed

text \<open>
  C6. On every successful \<open>start\<close> the synthetic heartbeat is the first envelope written:
  what \<open>start\<close> writes is the heartbeat, followed by the login envelope with the current
  user id when the puppet is logged in, and nothing else, all to the new handle; on a
  handle nothing was written to before, the heartbeat is therefore the first envelope
  of the connection. The ready envelope is not written by \<open>start\<close>: when the puppet is
  ready it is left to a timer of 15000 milliseconds, and when that timer fires on the
  state \<open>start\<close> left, it is written after the heartbeat (and the login).
\<close>

theorem heartbeat_first:
  assumes "eventStream s = None"
  shows "\<exists>s'. start ns stream s = Inr s'
     \<and> written s' = written s @
          (stream, EVENT_TYPE_HEARTBEAT,
             [(''data'', ''Wechaty Puppet gRPC stream connect successfully'')]) #
          (if puppet_isLoggedIn s
           then [(stream, EVENT_TYPE_LOGIN, [(''contactId'', puppet_currentUserId s)])]
           else [])
     \<and> (list_all (\<lambda>w. fst w \<noteq> stream) (written s) \<longrightarrow>
          filter (\<lambda>w. fst w = stream) (written s') =
            (stream, EVENT_TYPE_HEARTBEAT,
               [(''data'', ''Wechaty Puppet gRPC stream connect successfully'')]) #
            (if puppet_isLoggedIn s
             then [(stream, EVENT_TYPE_LOGIN, [(''contactId'', puppet_currentUserId s)])]
             else []))
     \<and> timers s' = timers s @
          (if puppet_readyIndicator s
           then [(15 * 1000, EVENT_TYPE_READY, [(''data'', ''ready'')])] else [])
     \<and> written (fireTimer (15 * 1000, EVENT_TYPE_READY, [(''data'', ''ready'')]) s') =
          written s' @ [(stream, EVENT_TYPE_READY, [(''data'', ''ready'')])]"
proof -
  obtain s' where s': "start ns stream s = Inr s'" "attached stream s'"
    "written s' = written s @
          (stream, EVENT_TYPE_HEARTBEAT,
             [(''data'', ''Wechaty Puppet gRPC stream connect successfully'')]) #
          (if puppet_isLoggedIn s
           then [(stream, EVENT_TYPE_LOGIN, [(''contactId'', puppet_currentUserId s)])]
           else [])"
    "timers s' = timers s @
          (if puppet_readyIndicator s
           then [(15 * 1000, EVENT_TYPE_READY, [(''data'', ''ready'')])] else [])"
    using start_attaches [OF assms] by blast
  have fresh: "list_all (\<lambda>w. fst w \<noteq> stream) (written s) \<Longrightarrow>
      filter (\<lambda>w. fst w = stream) (written s) = []"
    by (simp add: list_all_iff filter_empty_conv)
  have fire: "written (fireTimer (15 * 1000, EVENT_TYPE_READY, [(''data'', ''ready'')]) s') =
      written s' @ [(stream, EVENT_TYPE_READY, [(''data'', ''ready'')])]"
    using s'(2) by (simp add: fireTimer_def grpcEmit_def attached_def)
  show ?thesis
    using s' fresh fire by auto
qed

theorem heartbeat_first_witness:
  "eventStream idle = None \<and> list_all (\<lambda>w. fst w \<noteq> 1) (written idle)
   \<and> (\<exists>s'. start eventNames 1 idle = Inr s'
        \<and> written s' =
            [(1, EVENT_TYPE_HEARTBEAT,
                [(''data'', ''Wechaty Puppet gRPC stream connect successfully'')]),
             (1, EVENT_TYPE_LOGIN, [(''contactId'', ''A1'')])]
        \<and> filter (\<lambda>w. fst w = 1) (written s') =
            [(1, EVENT_TYPE_HEARTBEAT,
                [(''data'', ''Wechaty Puppet gRPC stream connect successfully'')]),
             (1, EVENT_TYPE_LOGIN, [(''contactId'', ''A1'')])]
        \<and> timers s' = [(15000, EVENT_TYPE_READY, [(''data'', ''ready'')])])"
proof -
  have h: "eventStream idle = None" by (rule idle_eventStream)
  have f: "list_all (\<lambda>w. fst w \<noteq> 1) (written idle)" by (simp add: idle_def)
  have i: "puppet_isLoggedIn idle" "puppet_currentUserId idle = ''A1''"
    "puppet_readyIndicator idle" "written idle = []" "timers idle = []"
    by (simp_all add: idle_def)
  show ?thesis
    using h f heartbeat_first [OF h, of eventNames 1] by (auto simp: i)
qed

text \<open>
  C7. For every sequence of teardown signals (cancelled, error, finish, end, close, in
  any order and any number) delivered to the attached handle, of which \<open>sg\<close> is the
  first: the handle is cleared, every registered unregistration callback has run
  exactly once (the log of calls grows by the callback list, last callback first, and
  the list is empty), and the state after the whole sequence is the state after its
  first signal, so the later signals change nothing.
\<close>

theorem teardown_once:
  assumes "attached stream s"
  shows "eventStream (signals stream (sg # sgs) s) = None
    \<and> offCallbackList (signals stream (sg # sgs) s) = []
    \<and> offCalled (signals stream (sg # sgs) s) = offCalled s @ rev (offCallbackList s)
    \<and> signals stream (sg # sgs) s = signal stream sg s"
proof -
  let ?s1 = "signal stream sg s"
  have s1: "?s1 = (removePuppetListeners s)\<lparr>eventStream := None\<rparr>"
    using assms attached_handler [OF assms, of sg]
    by (simp add: signal_def streamingCallEnd_eq removePuppetListeners_eq attached_def)
  have idle: "eventStream ?s1 = None" "offCallbackList ?s1 = []"
    by (simp_all add: s1 removePuppetListeners_eq)
  have stay: "signals stream sgs ?s1 = ?s1"
    by (rule signals_idle [OF idle])
  have called: "offCalled ?s1 = offCalled s @ rev (offCallbackList s)"
    by (simp add: s1 removePuppetListeners_eq)
  show ?thesis
    using idle stay called by (simp add: signals_Cons)
qed

theorem teardown_once_witness:
  "attached 1 connected
   \<and> eventStream (signals 1 [Finish, Close, Cancelled, Close] connected) = None
   \<and> offCallbackList (signals 1 [Finish, Close, Cancelled, Close] connected) = []
   \<and> offCalled (signals 1 [Finish, Close, Cancelled, Close] connected) =
       [(''ready'', EVENT_TYPE_READY), (''message'', EVENT_TYPE_MESSAGE),
        (''logout'', EVENT_TYPE_LOGOUT), (''login'', EVENT_TYPE_LOGIN),
        (''heartbeat'', EVENT_TYPE_HEARTBEAT)]
   \<and> signals 1 [Finish, Close, Cancelled, Close] connected = signal 1 Finish connected"
proof -
  note t = teardown_once [OF connected_attached, of Finish "[Close, Cancelled, Close]"]
  have c: "offCalled connected @ rev (offCallbackList connected) =
       [(''ready'', EVENT_TYPE_READY), (''message'', EVENT_TYPE_MESSAGE),
        (''logout'', EVENT_TYPE_LOGOUT), (''login'', EVENT_TYPE_LOGIN),
        (''heartbeat'', EVENT_TYPE_HEARTBEAT)]"
    by (simp add: connected_callbacks connected_fields)
  show ?thesis
    unfolding c [symmetric] using connected_attached t by blast
qed

text \<open>
  C8. \<open>stop\<close> has no \<open>await\<close>, and neither has the teardown handler: each runs to its end
  before anything else does, so a call of \<open>stop\<close> finds the handle either attached or
  cleared, never a teardown half done. With a handle attached, \<open>stop\<close> runs every
  unregistration callback (once, last one first), ends the handle, clears it, and
  returns. With nothing attached it fails with the error \<open>NoEventStream\<close> ("no
  this.eventStream"), which no other operation of the manager raises, and changes
  nothing. So it is with a second call after a \<open>stop\<close> that returned, and with a call
  after the teardown that the first of any teardown signals on the attached handle has
  done: each fails with \<open>NoEventStream\<close>, the error of a call with nothing attached, and
  with no other error.
\<close>

theorem stop_rule:
  "(eventStream s = Some stream \<longrightarrow>
      stop s = Inr (s\<lparr>eventStream := None, offCallbackList := [],
        puppetListeners := fold removeListener (rev (offCallbackList s)) (puppetListeners s),
        offCalled := offCalled s @ rev (offCallbackList s),
        ended := ended s @ [stream]\<rparr>))
   \<and> (eventStream s = None \<longrightarrow> stop s = Inl NoEventStream)
   \<and> (\<forall>s'. stop s = Inr s' \<longrightarrow> stop s' = Inl NoEventStream)
   \<and> (attached stream s \<longrightarrow> stop (signals stream (sg # sgs) s) = Inl NoEventStream)"
proof -
  have "attached stream s \<longrightarrow> stop (signals stream (sg # sgs) s) = Inl NoEventStream"
    using signals_detach [of stream s sg sgs] by (simp add: stop_def)
  moreover have "(eventStream s = Some stream \<longrightarrow>
      stop s = Inr (s\<lparr>eventStream := None, offCallbackList := [],
        puppetListeners := fold removeListener (rev (offCallbackList s)) (puppetListeners s),
        offCalled := offCalled s @ rev (offCallbackList s),
        ended := ended s @ [stream]\<rparr>))
   \<and> (eventStream s = None \<longrightarrow> stop s = Inl NoEventStream)
   \<and> (\<forall>s'. stop s = Inr s' \<longrightarrow> stop s' = Inl NoEventStream)"
    by (auto simp: stop_def Let_def removePuppetListeners_eq split: option.splits)
  ultimately show ?thesis by blast
qed

theorem stop_rule_witness:
  "eventStream connected = Some 1
   \<and> (\<exists>s'. stop connected = Inr s' \<and> eventStream s' = None \<and> offCallbackList s' = []
         \<and> ended s' = [1]
         \<and> offCalled s' =
             [(''ready'', EVENT_TYPE_READY), (''message'', EVENT_TYPE_MESSAGE),
              (''logout'', EVENT_TYPE_LOGOUT), (''login'', EVENT_TYPE_LOGIN),
              (''heartbeat'', EVENT_TYPE_HEARTBEAT)]
         \<and> stop s' = Inl NoEventStream)
   \<and> eventStream idle = None \<and> stop idle = Inl NoEventStream
   \<and> attached 1 connected \<and> stop (signals 1 [Finish, Close] connected) = Inl NoEventStream"
proof -
  have h: "eventStream connected = Some 1" by (rule connected_fields)
  have t: "stop (signals 1 [Finish, Close] connected) = Inl NoEventStream"
    using connected_attached stop_rule [of connected 1 Finish "[Close]"] by blast
  have "eventStream connected = Some 1
   \<and> (\<exists>s'. stop connected = Inr s' \<and> eventStream s' = None \<and> offCallbackList s' = []
         \<and> ended s' = [1]
         \<and> offCalled s' =
             [(''ready'', EVENT_TYPE_READY), (''message'', EVENT_TYPE_MESSAGE),
              (''logout'', EVENT_TYPE_LOGOUT), (''login'', EVENT_TYPE_LOGIN),
              (''heartbeat'', EVENT_TYPE_HEARTBEAT)]
         \<and> stop s' = Inl NoEventStream)
   \<and> eventStream idle = None \<and> stop idle = Inl NoEventStream"
    using h idle_eventStream stop_rule [of connected 1] stop_rule [of idle 1]
    by (simp add: connected_callbacks connected_fields)
  then show ?thesis
    using t connected_attached by blast
qed

section \<open>The Puppet Session: lemmas\<close>

subsection \<open>What the event handler leaves alone\<close>

lemma run_Await [simp]: "run (Await k) s = run (snd (k s)) (fst (k s))"
  by (simp add: case_prod_unfold)

declare run.simps(2) [simp del]

lemma flagsOf_eff [simp]: "flagsOf (eff e s) = flagsOf s"
  by (simp add: flagsOf_def eff_def)

lemma flagsOf_set [simp]: "flagsOf (setMiscellaneousStoreData d s) = flagsOf s"
  by (simp add: flagsOf_def setMiscellaneousStoreData_def Let_def split: option.splits)

lemma flagsOf_reset [simp]: "flagsOf (resetMiscellaneousStoreData s) = flagsOf s"
  by (simp add: flagsOf_def resetMiscellaneousStoreData_def split: option.splits)

lemma flagsOf_emitParsed [simp]: "flagsOf (emitParsed n ev s) = flagsOf s"
  by (simp add: emitParsed_def split: option.splits)

lemma flagsOf_heartbeat [simp]: "flagsOf (syntheticHeartbeat tn ev s) = flagsOf s"
  by (simp add: syntheticHeartbeat_def)

lemma flagsOf_store [simp]: "flagsOf (storeWatermark now ev s) = flagsOf s"
  by (simp add: storeWatermark_def)

lemma flagsOf_watermark [simp]: "flagsOf (updateWatermark now ev s) = flagsOf s"
  by (simp add: updateWatermark_def)

lemma flagsOf_loginCase:
  "flagsOf (fst (loginCase now p s)) = flagsOf s"
  "flagsOf (run (snd (loginCase now p s)) s') = flagsOf s'"
  by (simp_all add: loginCase_def Let_def)

lemma flagsOf_logoutCase:
  "flagsOf (fst (logoutCase p s)) = flagsOf s"
  "flagsOf (run (snd (logoutCase p s)) s') = flagsOf s'"
  by (simp_all add: logoutCase_def)

lemma flagsOf_switch:
  "flagsOf (fst (eventSwitch now ev s)) = flagsOf s"
  "flagsOf (run (snd (eventSwitch now ev s)) s') = flagsOf s'"
  by (cases "getType ev";
      simp add: eventSwitch_def flagsOf_loginCase flagsOf_logoutCase split: option.splits)+

lemma flagsOf_handler:
  "flagsOf (fst (onGrpcStreamEvent tn now ev s)) = flagsOf s"
  "flagsOf (run (snd (onGrpcStreamEvent tn now ev s)) s') = flagsOf s'"
  by (simp_all add: onGrpcStreamEvent_def Let_def flagsOf_switch)

lemma flagsOf_waitingForLogin: "flagsOf a = flagsOf b \<Longrightarrow> waitingForLogin a = waitingForLogin b"
  by (simp add: flagsOf_def)

lemma handler_waitingForLogin:
  "waitingForLogin (fst (onGrpcStreamEvent tn now ev s)) = waitingForLogin s"
  "waitingForLogin (run (snd (onGrpcStreamEvent tn now ev s)) s') = waitingForLogin s'"
  by (rule flagsOf_waitingForLogin, rule flagsOf_handler)+

subsection \<open>The handler run from its start to its end\<close>

lemma effects_eff [simp]: "effects (eff e s) = effects s @ [e]"
  by (simp add: eff_def)

lemma miscellaneous_eff [simp]: "miscellaneous (eff e s) = miscellaneous s"
  by (simp add: eff_def)

lemma effects_set [simp]: "effects (setMiscellaneousStoreData d s) = effects s"
  by (simp add: setMiscellaneousStoreData_def Let_def split: option.splits)

lemma effects_reset [simp]: "effects (resetMiscellaneousStoreData s) = effects s"
  by (simp add: resetMiscellaneousStoreData_def split: option.splits)

lemma effects_store [simp]: "effects (storeWatermark now ev s) = effects s"
  by (simp add: storeWatermark_def)

lemma effects_watermark [simp]: "effects (updateWatermark now ev s) = effects s"
  by (simp add: updateWatermark_def)

lemma miscellaneous_heartbeat [simp]:
  "miscellaneous (syntheticHeartbeat tn ev s) = miscellaneous s"
  by (simp add: syntheticHeartbeat_def)

lemma handler_run:
  "resume (onGrpcStreamEvent tn now ev s) =
     (if getSeq ev \<noteq> 0 \<and> \<not> DISABLE_EVENT_CACHE s
      then resume (eventSwitch now ev (updateWatermark now ev (syntheticHeartbeat tn ev s)))
      else resume (eventSwitch now ev (syntheticHeartbeat tn ev s)))"
  by (simp add: onGrpcStreamEvent_def Let_def resume_def updateWatermark_def
      syntheticHeartbeat_def eff_def getMiscellaneousStoreData_def)

lemma switch_effects_heartbeat:
  "getType ev = EVENT_TYPE_HEARTBEAT \<Longrightarrow> getPayload ev = Some p \<Longrightarrow>
     effects (resume (eventSwitch now ev s)) = effects s @ [Emit ''heartbeat'' p]"
  by (simp add: eventSwitch_def resume_def emitParsed_def)

lemma switch_effects_other:
  "getType ev \<noteq> EVENT_TYPE_HEARTBEAT \<Longrightarrow>
     \<exists>rest. effects (resume (eventSwitch now ev s)) = effects s @ rest
        \<and> (\<forall>p. Emit ''heartbeat'' p \<notin> set rest)"
  by (cases "getType ev";
      simp add: eventSwitch_def resume_def emitParsed_def loginCase_def logoutCase_def Let_def
           split: option.splits)

lemma switch_miscellaneous:
  "getType ev \<noteq> EVENT_TYPE_LOGIN \<Longrightarrow> getType ev \<noteq> EVENT_TYPE_LOGOUT \<Longrightarrow>
     miscellaneous (resume (eventSwitch now ev s)) = miscellaneous s"
  by (cases "getType ev";
      simp add: eventSwitch_def resume_def emitParsed_def split: option.splits)

lemma handler_miscellaneous:
  assumes "getType ev \<noteq> EVENT_TYPE_LOGIN" "getType ev \<noteq> EVENT_TYPE_LOGOUT"
  shows "miscellaneous (resume (onGrpcStreamEvent tn now ev s)) =
     (if getSeq ev \<noteq> 0 \<and> \<not> DISABLE_EVENT_CACHE s
      then miscellaneous (updateWatermark now ev s) else miscellaneous s)"
proof -
  have "miscellaneous (updateWatermark now ev (syntheticHeartbeat tn ev s)) =
      miscellaneous (updateWatermark now ev s)"
    by (auto simp: updateWatermark_def storeWatermark_def watermarkDue_def Let_def
        syntheticHeartbeat_def eff_def getMiscellaneousStoreData_def
        setMiscellaneousStoreData_def split: option.splits)
  then show ?thesis
    using assms by (simp add: handler_run switch_miscellaneous)
qed

text \<open>
  The handler resumed step by step, for an envelope that is neither a login nor a
  logout: the store is written in the second resumption only, when the watermark
  loaded in the first was due.
\<close>

lemma switch_task_miscellaneous:
  assumes "getType ev \<noteq> EVENT_TYPE_LOGIN" "getType ev \<noteq> EVENT_TYPE_LOGOUT"
  shows "miscellaneous (fst (eventSwitch now ev s)) = miscellaneous s"
    and "miscellaneous (fst (step (snd (eventSwitch now ev s)) s')) = miscellaneous s'"
    and "miscellaneous (run (snd (step (snd (eventSwitch now ev s)) s')) s'') = miscellaneous s''"
    and "miscellaneous (run (snd (eventSwitch now ev s)) s') = miscellaneous s'"
  using assms
  by (cases "getType ev"; simp add: eventSwitch_def emitParsed_def split: option.splits)+

lemma storeWatermark_miscellaneous:
  "miscellaneous s = Some m \<Longrightarrow>
     miscellaneous (storeWatermark now ev s) =
       (if DISABLE_EVENT_CACHE s then Some m
        else Some (m\<lparr>lastEventSeq := Some (getSeq ev), lastEventTimestamp := Some now\<rparr>))"
  by (simp add: storeWatermark_def setMiscellaneousStoreData_def)

lemma watermarkDue_iff:
  "watermarkDue seq loaded \<longleftrightarrow>
     lastEventSeq loaded = None \<or> (\<exists>w. lastEventSeq loaded = Some w \<and> w < seq) \<or> seq = 1"
  by (auto simp: watermarkDue_def split: option.splits)

lemma handler_steps:
  assumes "getType ev \<noteq> EVENT_TYPE_LOGIN" "getType ev \<noteq> EVENT_TYPE_LOGOUT"
    and "miscellaneous sw = Some m"
  shows "miscellaneous (fst (onGrpcStreamEvent tn now ev s)) = miscellaneous s"
    and "miscellaneous (fst (step (snd (onGrpcStreamEvent tn now ev s)) sr)) = miscellaneous sr"
    and "miscellaneous (run (snd (step (snd (onGrpcStreamEvent tn now ev s)) sr)) sw) =
           (if getSeq ev \<noteq> 0 \<and> \<not> DISABLE_EVENT_CACHE s
               \<and> watermarkDue (getSeq ev) (getMiscellaneousStoreData now sr)
            then miscellaneous (storeWatermark now ev sw) else Some m)"
  using assms
  by (simp_all add: onGrpcStreamEvent_def Let_def switch_task_miscellaneous
      syntheticHeartbeat_def eff_def)

text \<open>
  Where no \<open>await\<close> comes before the switch (no sequence number, or the event cache
  disabled), a login that arrives while \<open>waitingForLogin\<close> is set on a logged-in puppet,
  and a ready that arrives while \<open>waitingForReady\<close> is set on a ready puppet, are
  swallowed: the handler ends in the turn it started in, having emitted the synthetic
  heartbeat only.
\<close>

lemma login_swallowed_unsequenced:
  assumes "getSeq ev = 0 \<or> DISABLE_EVENT_CACHE s"
    and "getType ev = EVENT_TYPE_LOGIN" "waitingForLogin s" "isLoggedIn s"
  shows "onGrpcStreamEvent tn now ev s =
     (eff (Emit ''heartbeat'' [(''data'', ''onGrpcStreamEvent('' @ tn EVENT_TYPE_LOGIN @ '')'')]) s, Done)"
  using assms
  by (auto simp: onGrpcStreamEvent_def Let_def syntheticHeartbeat_def eventSwitch_def eff_def)

lemma ready_swallowed_unsequenced:
  assumes "getSeq ev = 0 \<or> DISABLE_EVENT_CACHE s"
    and "getType ev = EVENT_TYPE_READY" "waitingForReady s" "readyIndicator s"
  shows "onGrpcStreamEvent tn now ev s =
     (eff (Emit ''heartbeat'' [(''data'', ''onGrpcStreamEvent('' @ tn EVENT_TYPE_READY @ '')'')]) s, Done)"
  using assms
  by (auto simp: onGrpcStreamEvent_def Let_def syntheticHeartbeat_def eventSwitch_def eff_def)

subsection \<open>The transient listeners and the login wait\<close>

lemma handler_suspended:
  assumes "getSeq ev \<noteq> 0" "\<not> DISABLE_EVENT_CACHE s"
  shows "fst (onGrpcStreamEvent tn now ev s) = syntheticHeartbeat tn ev s"
    and "run (snd (onGrpcStreamEvent tn now ev s)) s' =
           resume (eventSwitch now ev (updateWatermark now ev s'))"
  using assms
  by (simp_all add: onGrpcStreamEvent_def Let_def syntheticHeartbeat_def eff_def resume_def
      updateWatermark_def)

lemma switch_ready_unarmed:
  "getType ev = EVENT_TYPE_READY \<Longrightarrow> \<not> waitingForReady s \<Longrightarrow> getPayload ev = Some p \<Longrightarrow>
     resume (eventSwitch now ev s) = eff (Emit ''ready'' p) s"
  by (simp add: eventSwitch_def resume_def emitParsed_def)

text \<open>
  With a sequence number and the event cache enabled, a ready envelope that arrives
  while \<open>waitingForReady\<close> is set is not swallowed, whatever the ready indicator says:
  \<open>onReady\<close> clears the flag while the handler is suspended, and the handler emits the
  ready event when it resumes.
\<close>

lemma sequenced_ready_not_swallowed:
  assumes "getSeq ev \<noteq> 0" "\<not> DISABLE_EVENT_CACHE s"
    and "getType ev = EVENT_TYPE_READY" "getPayload ev = Some p"
    and "waitingForReady s"
  shows "effects (fst (emitData tn acc lo True (now, ev) (s, fut))) =
           effects s @ [Emit ''heartbeat''
                          [(''data'', ''onGrpcStreamEvent('' @ tn EVENT_TYPE_READY @ '')'')],
                        Emit ''ready'' p]
       \<and> readyFuture (snd (emitData tn acc lo True (now, ev) (s, fut)))"
proof -
  let ?s1 = "syntheticHeartbeat tn ev s"
  let ?s3 = "?s1\<lparr>waitingForReady := False\<rparr>"
  have s1: "effects ?s1 = effects s @ [Emit ''heartbeat''
        [(''data'', ''onGrpcStreamEvent('' @ tn EVENT_TYPE_READY @ '')'')]]"
    "waitingForReady ?s1"
    using assms(3,5) by (simp_all add: syntheticHeartbeat_def eff_def)
  have ol: "onLogin acc ev (?s1, fut) = (False, ?s1, fut)"
    using assms(3) by (simp add: onLogin_def)
  have orr: "onReady ev (?s1, fut) = (?s3, fut\<lparr>readyFuture := True\<rparr>)"
    using assms(3) s1(2) by (simp add: onReady_def)
  have e: "emitData tn acc lo True (now, ev) (s, fut) =
      (resume (eventSwitch now ev (updateWatermark now ev ?s3)), fut\<lparr>readyFuture := True\<rparr>)"
    using handler_suspended [OF assms(1,2), of tn now] ol orr
    by (simp add: emitData_def case_prod_unfold Let_def)
  have w: "\<not> waitingForReady (updateWatermark now ev ?s3)"
    by (simp add: updateWatermark_def storeWatermark_def setMiscellaneousStoreData_def Let_def
        split: option.splits)
  have we: "effects (updateWatermark now ev ?s3) = effects ?s1"
    by simp
  show ?thesis
    using switch_ready_unarmed [OF assms(3) w assms(4), of now] we s1(1)
    by (simp add: e eff_def)
qed


lemma onReady_login:
  "waitingForLogin (fst (onReady ev p)) = waitingForLogin (fst p)"
  "loginFuture (snd (onReady ev p)) = loginFuture (snd p)"
  by (cases p; simp add: onReady_def)+

lemma onLogin_other:
  "getType ev \<noteq> EVENT_TYPE_LOGIN \<or> \<not> waitingForLogin (fst p) \<Longrightarrow>
     onLogin acc ev p = (False, p)"
  by (cases p) (auto simp: onLogin_def)

lemma onLogin_mismatch:
  assumes "waitingForLogin (fst p)" "getType ev = EVENT_TYPE_LOGIN" "getPayload ev = Some obj"
    "acc = Some a" "a \<noteq> []" "field ''contactId'' obj \<noteq> Some a"
  shows "onLogin acc ev p = (True, eff Thrown ((fst p)\<lparr>waitingForLogin := False\<rparr>), snd p)"
  using assms by (cases p) (simp add: onLogin_def truthy_def Let_def)

text \<open>
  An envelope that is not a login, or that arrives when \<open>waitingForLogin\<close> is clear,
  changes neither that flag nor the login future.
\<close>

lemma emitData_keeps:
  assumes "getType (snd e) \<noteq> EVENT_TYPE_LOGIN \<or> \<not> waitingForLogin (fst p)"
  shows "waitingForLogin (fst (emitData tn acc lo ro e p)) = waitingForLogin (fst p)
       \<and> loginFuture (snd (emitData tn acc lo ro e p)) = loginFuture (snd p)"
proof -
  obtain s fut where p: "p = (s, fut)" by (cases p)
  obtain s1 k where h: "onGrpcStreamEvent tn (fst e) (snd e) s = (s1, k)"
    by (cases "onGrpcStreamEvent tn (fst e) (snd e) s")
  have s1: "waitingForLogin s1 = waitingForLogin s"
    using handler_waitingForLogin(1) [of tn "fst e" "snd e" s] h by simp
  have k: "\<And>s'. waitingForLogin (run k s') = waitingForLogin s'"
    using handler_waitingForLogin(2) [of tn "fst e" "snd e" s] h by simp
  have ol: "onLogin acc (snd e) (s1, fut) = (False, s1, fut)"
    using assms s1 p onLogin_other [of "snd e" "(s1, fut)" acc] by auto
  obtain s3 fut3 where r: "onReady (snd e) (s1, fut) = (s3, fut3)"
    by (cases "onReady (snd e) (s1, fut)")
  have r3: "waitingForLogin s3 = waitingForLogin s1" "loginFuture fut3 = loginFuture fut"
    using onReady_login [of "snd e" "(s1, fut)"] r by simp_all
  show ?thesis
    using p h ol r r3 s1 k by (simp add: emitData_def Let_def)
qed

text \<open>
  The login of another account, arriving while \<open>waitingForLogin\<close> is set: \<open>onLogin\<close>
  clears the flag and throws; the login future stays as it was.
\<close>

lemma emitData_mismatch:
  assumes "waitingForLogin (fst p)" "getType (snd e) = EVENT_TYPE_LOGIN"
    "getPayload (snd e) = Some obj" "acc = Some a" "a \<noteq> []"
    "field ''contactId'' obj \<noteq> Some a"
  shows "\<not> waitingForLogin (fst (emitData tn acc True ro e p))
       \<and> loginFuture (snd (emitData tn acc True ro e p)) = loginFuture (snd p)"
proof -
  obtain s fut where p: "p = (s, fut)" by (cases p)
  obtain s1 k where h: "onGrpcStreamEvent tn (fst e) (snd e) s = (s1, k)"
    by (cases "onGrpcStreamEvent tn (fst e) (snd e) s")
  have s1: "waitingForLogin s1"
    using handler_waitingForLogin(1) [of tn "fst e" "snd e" s] h assms(1) p by simp
  have k: "\<And>s'. waitingForLogin (run k s') = waitingForLogin s'"
    using handler_waitingForLogin(2) [of tn "fst e" "snd e" s] h by simp
  have ol: "onLogin acc (snd e) (s1, fut) =
      (True, eff Thrown (s1\<lparr>waitingForLogin := False\<rparr>), fut)"
    using onLogin_mismatch [of "(s1, fut)" "snd e" obj acc a] assms s1 by simp
  show ?thesis
    using p h ol k by (simp add: emitData_def Let_def eff_def)
qed

lemma awaitLogin_disarmed:
  "\<not> waitingForLogin (fst p) \<Longrightarrow> \<not> loginFuture (snd p) \<Longrightarrow>
     \<not> loginFuture (snd (fst (awaitLogin tn acc es p)))"
proof (induction es arbitrary: p)
  case Nil
  then show ?case by simp
next
  case (Cons e es)
  have "waitingForLogin (fst (emitData tn acc True True e p)) = waitingForLogin (fst p)
      \<and> loginFuture (snd (emitData tn acc True True e p)) = loginFuture (snd p)"
    using Cons.prems by (intro emitData_keeps) simp
  then show ?case
    using Cons by (simp add: Let_def)
qed

lemma awaitLogin_mismatch:
  assumes "find (\<lambda>e. getType (snd e) = EVENT_TYPE_LOGIN) es = Some (t, ev)"
    and "getPayload ev = Some obj" "acc = Some a" "a \<noteq> []"
    and "field ''contactId'' obj \<noteq> Some a"
    and "waitingForLogin (fst p)" "\<not> loginFuture (snd p)"
  shows "\<not> loginFuture (snd (fst (awaitLogin tn acc es p)))"
  using assms(1,6,7)
proof (induction es arbitrary: p)
  case Nil
  then show ?case by simp
next
  case (Cons e es)
  let ?p1 = "emitData tn acc True True e p"
  show ?case
  proof (cases "getType (snd e) = EVENT_TYPE_LOGIN")
    case True
    then have e: "e = (t, ev)" using Cons.prems(1) by simp
    have "\<not> waitingForLogin (fst ?p1) \<and> loginFuture (snd ?p1) = loginFuture (snd p)"
      using emitData_mismatch [of p e obj acc a tn True] True e assms(2-5) Cons.prems(2)
      by simp
    then show ?thesis
      using Cons.prems(3) awaitLogin_disarmed [of ?p1 tn acc es] by (simp add: Let_def)
  next
    case False
    then have "waitingForLogin (fst ?p1) = waitingForLogin (fst p)
      \<and> loginFuture (snd ?p1) = loginFuture (snd p)"
      by (intro emitData_keeps) simp
    then show ?thesis
      using Cons False by (simp add: Let_def)
  qed
qed

subsection \<open>The retry loop\<close>

text \<open>
  Failed attempts that all end within the budget, followed by an attempt that starts
  the stream: the loop returns with the stream started.
\<close>

lemma retryLoop_started:
  assumes "\<forall>now \<in> set fs. real_of_int (now - t0) < real_of_int (timeoutMilliseconds s) / 10"
  shows "\<exists>s'. retryLoop t0 seq acc (map Failed fs @ Started # later) s = Some (s', True)"
  using assms
proof (induction fs arbitrary: s)
  case Nil
  then show ?case by simp
next
  case (Cons f fs)
  have "\<exists>s'. retryLoop t0 seq acc (map Failed fs @ Started # later)
           (eff (Sleep 5000) (eff (StartStream (30 * 1000) seq acc) s)) = Some (s', True)"
    using Cons.prems by (intro Cons.IH) (simp add: eff_def)
  then show ?case
    using Cons.prems by (simp add: Let_def eff_def)
qed

text \<open>
  A failed attempt within the budget is followed by a sleep of 5000 milliseconds and
  the next attempt; a failed attempt at or past the budget clears the reconnecting flag
  and ends the loop; every attempt calls \<open>startStream\<close> with the loaded sequence number
  and account under a timeout of 30000 milliseconds.
\<close>

lemma retryLoop_step:
  "retryLoop t0 seq acc (Failed now # as) s =
     (if real_of_int (now - t0) < real_of_int (timeoutMilliseconds s) / 10
      then retryLoop t0 seq acc as
             (s\<lparr>effects := effects s @ [StartStream 30000 seq acc, Sleep 5000]\<rparr>)
      else Some (s\<lparr>effects := effects s @ [StartStream 30000 seq acc],
                   reconnectIndicator := False\<rparr>, False))"
  "retryLoop t0 seq acc (Started # as) s =
     Some (s\<lparr>effects := effects s @ [StartStream 30000 seq acc]\<rparr>, True)"
  by (simp_all add: Let_def eff_def)

lemma getMiscellaneousStoreData_cong:
  "miscellaneous a = miscellaneous b \<Longrightarrow> DISABLE_EVENT_CACHE a = DISABLE_EVENT_CACHE b \<Longrightarrow>
   timeoutMilliseconds a = timeoutMilliseconds b \<Longrightarrow>
   getMiscellaneousStoreData now a = getMiscellaneousStoreData now b"
  by (simp add: getMiscellaneousStoreData_def)

subsection \<open>The log of effects only grows\<close>












subsection \<open>\<open>reset\<close> past its guards\<close>




text \<open>The definitions that a run on a concrete session unfolds.\<close>

lemmas run_defs = reset_def session_def constructor_def Let_def eff_def
  getMiscellaneousStoreData_def setMiscellaneousStoreData_def resetMiscellaneousStoreData_def
  emitData_def onGrpcStreamEvent_def syntheticHeartbeat_def updateWatermark_def eventSwitch_def
  watermarkDue_def storeWatermark_def
  loginCase_def logoutCase_def emitParsed_def resume_def onLogin_def onReady_def truthy_def
  field_def superReset_def loginEnvelope_def readyEnvelope_def messageEnvelope_def
  heartbeatEnvelope_def typeNames_def

text \<open>
  A reconnect whose login and ready envelopes carry no sequence number: both are
  swallowed, and the local listeners see the two synthetic heartbeats only.
\<close>

lemma unsequenced_reconnect_is_quiet:
  "reset typeNames
     \<lparr>loadedAt = 2000, startTime = 2000, attempts = [Started],
      loginWindow = [(2100, loginEnvelope 0 ''A1'')],
      readyWindow = [(2200, readyEnvelope 0)]\<rparr> session =
   Some (session\<lparr>effects :=
           [StopStream, ListenerOn OnLogin, ListenerOn OnReady,
            StartStream 30000 (Some 5) (Some ''A1''),
            Emit ''heartbeat'' [(''data'', ''onGrpcStreamEvent(EVENT_TYPE_LOGIN)'')],
            ListenerOff OnLogin,
            Emit ''heartbeat'' [(''data'', ''onGrpcStreamEvent(EVENT_TYPE_READY)'')],
            ListenerOff OnReady]\<rparr>, Reconnected)"
  by (simp add: run_defs)

section \<open>The Puppet Session: claims\<close>




text \<open>
  C2. In a fast-path reconnect (the transport manager exists, the puppet is logged in,
  no reconnect is in flight, and the stream restarts after failed attempts that all end
  within the budget), if the first login envelope that arrives during the login wait
  carries a \<open>contactId\<close> other than the non-empty \<open>accountId\<close> loaded from the store,
  then \<open>reset\<close> returns through \<open>super.reset()\<close>: its outcome is the regular reset, the
  call of \<open>super.reset()\<close> is the last thing it does, and the reconnecting indicator is
  clear. (\<open>onLogin\<close> clears \<open>waitingForLogin\<close> and throws without resolving the login
  future, so no later envelope resolves it and the login timer ends the wait.)
\<close>

theorem different_account_falls_back:
  assumes "grpcManager s" "isLoggedIn s" "\<not> reconnectIndicator s"
    and "attempts script = map Failed fs @ Started # later"
    and "\<forall>now \<in> set fs.
           real_of_int (now - startTime script) < real_of_int (timeoutMilliseconds s) / 10"
    and "accountId (getMiscellaneousStoreData (loadedAt script) s) = Some a" "a \<noteq> []"
    and "find (\<lambda>e. getType (snd e) = EVENT_TYPE_LOGIN) (loginWindow script) = Some (t, ev)"
    and "getPayload ev = Some payloadObj"
    and "field ''contactId'' payloadObj \<noteq> Some a"
  shows "\<exists>s'. reset typeName script s = Some (s', RegularReset)
           \<and> last (effects s') = SuperReset \<and> \<not> reconnectIndicator s'"
proof -
  let ?s2 = "eff StopStream (s\<lparr>reconnectIndicator := True\<rparr>)"
  let ?s3 = "eff (ListenerOn OnReady) (eff (ListenerOn OnLogin) ?s2)"
  let ?loaded = "getMiscellaneousStoreData (loadedAt script) ?s2"
  have loaded: "?loaded = getMiscellaneousStoreData (loadedAt script) s"
    by (rule getMiscellaneousStoreData_cong) (simp_all add: eff_def)
  then have acc: "accountId ?loaded = Some a" using assms(6) by simp
  have "\<forall>now \<in> set fs.
      real_of_int (now - startTime script) < real_of_int (timeoutMilliseconds ?s3) / 10"
    using assms(5) by (simp add: eff_def)
  then have "\<exists>s4. retryLoop (startTime script) (lastEventSeq ?loaded) (Some a)
      (map Failed fs @ Started # later) ?s3 = Some (s4, True)"
    by (rule retryLoop_started)
  then obtain s4 where s4: "retryLoop (startTime script) (lastEventSeq ?loaded) (Some a)
      (attempts script) ?s3 = Some (s4, True)"
    unfolding assms(4) by blast
  let ?p = "(s4\<lparr>waitingForLogin := True, waitingForReady := True\<rparr>,
             \<lparr>loginFuture = False, readyFuture = False\<rparr>)"
  obtain s6 fut left where w:
    "awaitLogin typeName (Some a) (loginWindow script) ?p = ((s6, fut), left)"
    by (metis surj_pair)
  have "\<not> loginFuture (snd (fst (awaitLogin typeName (Some a) (loginWindow script) ?p)))"
    by (rule awaitLogin_mismatch [OF assms(8) assms(9) refl assms(7) assms(10)]) simp_all
  then have unresolved: "\<not> loginFuture fut" using w by simp
  show ?thesis
    using assms(1-3) acc s4 w unresolved
    by (simp add: reset_def Let_def superReset_def eff_def)
qed

theorem different_account_falls_back_witness:
  "attempts otherAccountScript = map Failed [7000] @ Started # []
   \<and> accountId (getMiscellaneousStoreData (loadedAt otherAccountScript) session) = Some ''A1''
   \<and> find (\<lambda>e. getType (snd e) = EVENT_TYPE_LOGIN) (loginWindow otherAccountScript) =
       Some (7200, loginEnvelope 0 ''A2'')
   \<and> (\<exists>s'. reset typeNames otherAccountScript session = Some (s', RegularReset)
         \<and> last (effects s') = SuperReset \<and> \<not> reconnectIndicator s')"
proof -
  have h: "grpcManager session" "isLoggedIn session" "\<not> reconnectIndicator session"
    by (simp_all add: session_def constructor_def)
  have a: "attempts otherAccountScript = map Failed [7000] @ Started # []"
    by (simp add: otherAccountScript_def)
  have b: "\<forall>now \<in> set [7000]. real_of_int (now - startTime otherAccountScript)
      < real_of_int (timeoutMilliseconds session) / 10"
    by (simp add: otherAccountScript_def session_def constructor_def)
  have c: "accountId (getMiscellaneousStoreData (loadedAt otherAccountScript) session) =
      Some ''A1''"
    by (simp add: getMiscellaneousStoreData_def session_def constructor_def Let_def)
  have d: "''A1'' \<noteq> []" by simp
  have f: "find (\<lambda>e. getType (snd e) = EVENT_TYPE_LOGIN) (loginWindow otherAccountScript) =
      Some (7200, loginEnvelope 0 ''A2'')"
    by (simp add: otherAccountScript_def messageEnvelope_def loginEnvelope_def)
  have g: "getPayload (loginEnvelope 0 ''A2'') = Some [(''contactId'', ''A2'')]"
    by (simp add: loginEnvelope_def)
  have i: "field ''contactId'' [(''contactId'', ''A2'')] \<noteq> Some ''A1''"
    by (simp add: field_def)
  show ?thesis
    using a c f different_account_falls_back [OF h a b c d f g i, of typeNames] by simp
qed

text \<open>
  C3, the retry budget of a session made with no \<open>timeoutSeconds\<close> option. The
  constructor sets \<open>timeoutMilliseconds\<close> to 2 * 1000 * 60 = 120000, and the budget of
  the loop, one tenth of it, is 12000 milliseconds: 12 seconds, not 2 minutes. With
  \<open>timeoutSeconds\<close> = 120 (the 2 hours of the constructor's comment) the budget is
  720000 milliseconds, 12 minutes. On the session of the examples a first attempt that
  fails 12 seconds after \<open>startTime\<close> ends the loop: \<open>reset\<close> clears the reconnecting
  flag and calls \<open>super.reset()\<close> without a second attempt.
\<close>

theorem default_budget_is_twelve_seconds:
  "timeoutMilliseconds (constructor None False) = 120000
   \<and> real_of_int (timeoutMilliseconds (constructor None False)) / 10 = 12000
   \<and> real_of_int (timeoutMilliseconds (constructor (Some 120) False)) / 10 = 720000
   \<and> timeoutMilliseconds session = timeoutMilliseconds (constructor None False)
   \<and> reset typeNames twelveSecondsScript session =
       Some (session\<lparr>effects :=
               [StopStream, ListenerOn OnLogin, ListenerOn OnReady,
                StartStream 30000 (Some 5) (Some ''A1''), SuperReset]\<rparr>, RegularReset)"
  by (simp add: run_defs twelveSecondsScript_def)

text \<open>
  C4, a reconnect that succeeds with envelopes that carry sequence numbers, on a session
  that is logged in and ready with the event cache enabled. The handler awaits the store
  (line 265) before its switch; during that await \<open>onLogin\<close> and \<open>onReady\<close> clear
  \<open>waitingForLogin\<close> and \<open>waitingForReady\<close>; the tests of lines 289 and 344 then fail, so
  \<open>this.login\<close> is called and the ready event is emitted to the local listeners. The
  reconnect ends with the indicator clear and the puppet logged in.
\<close>

theorem sequenced_ready_is_emitted:
  "map_option snd (reset typeNames sequencedScript session) = Some Reconnected
   \<and> map_option (reconnectIndicator \<circ> fst) (reset typeNames sequencedScript session) = Some False
   \<and> map_option (isLoggedIn \<circ> fst) (reset typeNames sequencedScript session) = Some True
   \<and> map_option (effects \<circ> fst) (reset typeNames sequencedScript session) =
       Some [StopStream, ListenerOn OnLogin, ListenerOn OnReady,
             StartStream 30000 (Some 5) (Some ''A1''),
             Emit ''heartbeat'' [(''data'', ''onGrpcStreamEvent(EVENT_TYPE_LOGIN)'')],
             Login (Some ''A1''), ListenerOff OnLogin,
             Emit ''heartbeat'' [(''data'', ''onGrpcStreamEvent(EVENT_TYPE_READY)'')],
             Emit ''ready'' [(''data'', ''ready'')], ListenerOff OnReady]"
  by (simp add: run_defs sequencedScript_def)

text \<open>
  C9, as the code has it. The handler is called at \<open>s\<close> and returns at its first
  \<open>await\<close>, at \<open>s0\<close>, with the task \<open>t1\<close> left; it is resumed at \<open>sr\<close>, where it loads the
  store, and returns at \<open>sa\<close> with \<open>t2\<close> left; it is resumed at \<open>sw\<close>, a state whose store
  exists, and runs to its end. The states \<open>sr\<close> and \<open>sw\<close> are whatever the handlers and
  listeners that ran meanwhile have left. For an envelope that is neither a login nor
  a logout:

  \<^item> the store is written neither before the first \<open>await\<close> nor in the first
    resumption;
  \<^item> the \<open>lastEventSeq\<close> stored at the end differs from the one found at \<open>sw\<close> only by
    being the envelope's sequence number, and only when that number is not 0 and the
    watermark loaded at \<open>sr\<close> was absent (none stored, or dropped as stale by the load),
    or less than the number, or the number is 1;
  \<^item> so when the store written on is the store loaded from (nothing wrote between
    the load and the write), an envelope whose sequence number is at most the stored
    watermark and is not 1 leaves a watermark that is not stale unchanged.
\<close>

theorem watermark_rule:
  assumes "getType ev \<noteq> EVENT_TYPE_LOGIN" "getType ev \<noteq> EVENT_TYPE_LOGOUT"
    and "onGrpcStreamEvent typeName now ev s = (s0, t1)"
    and "step t1 sr = (sa, t2)"
    and "miscellaneous sw = Some m"
  shows "miscellaneous s0 = miscellaneous s \<and> miscellaneous sa = miscellaneous sr
     \<and> (\<exists>m'. miscellaneous (run t2 sw) = Some m'
          \<and> (lastEventSeq m' \<noteq> lastEventSeq m \<longrightarrow>
                lastEventSeq m' = Some (getSeq ev) \<and> getSeq ev \<noteq> 0
                \<and> (lastEventSeq (getMiscellaneousStoreData now sr) = None
                    \<or> (\<exists>w. lastEventSeq (getMiscellaneousStoreData now sr) = Some w
                             \<and> w < getSeq ev)
                    \<or> getSeq ev = 1))
          \<and> (\<forall>w. miscellaneous sr = Some m \<and> \<not> DISABLE_EVENT_CACHE sr
                   \<and> lastEventSeq m = Some w \<and> getSeq ev \<le> w \<and> getSeq ev \<noteq> 1
                   \<and> \<not> now - (case lastEventTimestamp m of None \<Rightarrow> 0 | Some ts \<Rightarrow> ts)
                          > timeoutMilliseconds sr
                 \<longrightarrow> lastEventSeq m' = Some w))"
proof -
  have s0: "s0 = fst (onGrpcStreamEvent typeName now ev s)"
    and t1: "t1 = snd (onGrpcStreamEvent typeName now ev s)"
    using assms(3) by simp_all
  have sa: "sa = fst (step t1 sr)" and t2: "t2 = snd (step t1 sr)"
    using assms(4) by simp_all
  note h = handler_steps [OF assms(1,2,5)]
  have a: "miscellaneous s0 = miscellaneous s" "miscellaneous sa = miscellaneous sr"
    by (simp_all add: s0 sa t1 h(1,2))
  have r: "miscellaneous (run t2 sw) =
           (if getSeq ev \<noteq> 0 \<and> \<not> DISABLE_EVENT_CACHE s
               \<and> watermarkDue (getSeq ev) (getMiscellaneousStoreData now sr)
            then miscellaneous (storeWatermark now ev sw) else Some m)"
    unfolding t2 t1 by (rule h(3))
  show ?thesis
  proof (cases "getSeq ev \<noteq> 0 \<and> \<not> DISABLE_EVENT_CACHE s
               \<and> watermarkDue (getSeq ev) (getMiscellaneousStoreData now sr)")
    case True
    then have due: "lastEventSeq (getMiscellaneousStoreData now sr) = None
        \<or> (\<exists>w. lastEventSeq (getMiscellaneousStoreData now sr) = Some w \<and> w < getSeq ev)
        \<or> getSeq ev = 1"
      by (simp add: watermarkDue_iff)
    have stay: "\<not> (\<exists>w. miscellaneous sr = Some m \<and> \<not> DISABLE_EVENT_CACHE sr
                   \<and> lastEventSeq m = Some w \<and> getSeq ev \<le> w \<and> getSeq ev \<noteq> 1
                   \<and> \<not> now - (case lastEventTimestamp m of None \<Rightarrow> 0 | Some ts \<Rightarrow> ts)
                          > timeoutMilliseconds sr)"
      using due by (auto simp: getMiscellaneousStoreData_def Let_def)
    show ?thesis
      using a r True due stay storeWatermark_miscellaneous [OF assms(5), of now ev]
      by (cases "DISABLE_EVENT_CACHE sw") auto
  next
    case False
    then show ?thesis using a r by auto
  qed
qed

theorem watermark_rule_witness:
  "getType (messageEnvelope 3) \<noteq> EVENT_TYPE_LOGIN
   \<and> getType (messageEnvelope 3) \<noteq> EVENT_TYPE_LOGOUT
   \<and> map_option lastEventSeq (miscellaneous session) = Some (Some 5)
   \<and> map_option lastEventSeq
       (miscellaneous
          (run (snd (step (snd (onGrpcStreamEvent typeNames 2000 (messageEnvelope 3) session))
                      session)) session)) = Some (Some 5)
   \<and> map_option lastEventSeq
       (miscellaneous
          (run (snd (step (snd (onGrpcStreamEvent typeNames 2000 (messageEnvelope 9) session))
                      session)) session)) = Some (Some 9)"
proof -
  let ?m = "\<lparr>lastEventSeq = Some 5, lastEventTimestamp = Some 1000, accountId = Some ''A1''\<rparr>"
  let ?h = "onGrpcStreamEvent typeNames 2000 (messageEnvelope 3) session"
  have m: "miscellaneous session = Some ?m"
    by (simp add: session_def)
  have t: "getType (messageEnvelope 3) \<noteq> EVENT_TYPE_LOGIN"
    "getType (messageEnvelope 3) \<noteq> EVENT_TYPE_LOGOUT"
    by (simp_all add: messageEnvelope_def)
  have c: "?h = (fst ?h, snd ?h)" "step (snd ?h) session = (fst (step (snd ?h) session),
      snd (step (snd ?h) session))"
    by simp_all
  have fresh: "\<not> DISABLE_EVENT_CACHE session"
    "\<not> 2000 - (case lastEventTimestamp ?m of None \<Rightarrow> 0 | Some ts \<Rightarrow> ts)
      > timeoutMilliseconds session"
    "getSeq (messageEnvelope 3) \<le> 5" "getSeq (messageEnvelope 3) \<noteq> 1"
    by (simp_all add: session_def constructor_def messageEnvelope_def)
  obtain m3 where m3:
    "miscellaneous (run (snd (step (snd ?h) session)) session) = Some m3"
    "lastEventSeq m3 = Some 5"
    using watermark_rule [OF t c m] m fresh by auto
  have nine: "map_option lastEventSeq
       (miscellaneous
          (run (snd (step (snd (onGrpcStreamEvent typeNames 2000 (messageEnvelope 9) session))
                      session)) session)) = Some (Some 9)"
    by (simp add: run_defs)
  show ?thesis
    using t m m3 nine by simp
qed

text \<open>
  C9, counterexamples to the claim as stated (an envelope whose sequence number is at
  most the watermark leaves it unchanged). With the watermark 5 stored and not stale,
  a message with the sequence number 1 sets the watermark back to 1. And with two
  messages in flight, numbered 9 and 7, both handlers load the watermark 5 before
  either writes: the first writes 9, the second then writes 7 over it.
\<close>

theorem watermark_regresses_counterexample:
  "map_option lastEventSeq (miscellaneous session) = Some (Some 5)
   \<and> getSeq (messageEnvelope 1) \<le> 5
   \<and> map_option lastEventSeq
       (miscellaneous (resume (onGrpcStreamEvent typeNames 2000 (messageEnvelope 1) session))) =
       Some (Some 1)
   \<and> map_option lastEventSeq
       (miscellaneous
          (fst (twoInFlight typeNames 2000 (messageEnvelope 9) (messageEnvelope 7) session))) =
       Some (Some 9)
   \<and> getSeq (messageEnvelope 7) \<le> 9
   \<and> map_option lastEventSeq
       (miscellaneous
          (snd (twoInFlight typeNames 2000 (messageEnvelope 9) (messageEnvelope 7) session))) =
       Some (Some 7)"
  by (simp add: twoInFlight_def run_defs)

text \<open>
  C10. The handler, run from its start to its end on a received envelope. For an
  envelope that is not a heartbeat, the first thing it emits is the synthetic heartbeat
  whose data names the type of the envelope, before anything the switch does, and it
  emits no other heartbeat. For a heartbeat envelope (whose payload parses) it emits
  exactly one thing, the heartbeat with the payload of the envelope.
\<close>

theorem heartbeat_once:
  "(getType ev \<noteq> EVENT_TYPE_HEARTBEAT \<longrightarrow>
      (\<exists>rest. effects (resume (onGrpcStreamEvent typeName now ev s)) =
          effects s @ Emit ''heartbeat''
             [(''data'', ''onGrpcStreamEvent('' @ typeName (getType ev) @ '')'')] # rest
        \<and> (\<forall>p. Emit ''heartbeat'' p \<notin> set rest)))
   \<and> (getType ev = EVENT_TYPE_HEARTBEAT \<longrightarrow> getPayload ev = Some p \<longrightarrow>
        effects (resume (onGrpcStreamEvent typeName now ev s)) =
          effects s @ [Emit ''heartbeat'' p])"
proof (intro conjI impI)
  assume t: "getType ev \<noteq> EVENT_TYPE_HEARTBEAT"
  let ?hb = "Emit ''heartbeat''
     [(''data'', ''onGrpcStreamEvent('' @ typeName (getType ev) @ '')'')]"
  let ?s1 = "syntheticHeartbeat typeName ev s"
  have s1: "effects ?s1 = effects s @ [?hb]"
    using t by (simp add: syntheticHeartbeat_def)
  note run = handler_run [of typeName now ev s]
  show "\<exists>rest. effects (resume (onGrpcStreamEvent typeName now ev s)) = effects s @ ?hb # rest
        \<and> (\<forall>p. Emit ''heartbeat'' p \<notin> set rest)"
  proof (cases "getSeq ev \<noteq> 0 \<and> \<not> DISABLE_EVENT_CACHE s")
    case True
    obtain rest where
      "effects (resume (eventSwitch now ev (updateWatermark now ev ?s1))) =
        effects (updateWatermark now ev ?s1) @ rest"
      "\<forall>p. Emit ''heartbeat'' p \<notin> set rest"
      using switch_effects_other [OF t] by blast
    then show ?thesis using True run s1 by auto
  next
    case False
    obtain rest where "effects (resume (eventSwitch now ev ?s1)) = effects ?s1 @ rest"
      "\<forall>p. Emit ''heartbeat'' p \<notin> set rest"
      using switch_effects_other [OF t] by blast
    then show ?thesis using False run s1 by auto
  qed
next
  assume t: "getType ev = EVENT_TYPE_HEARTBEAT" and p: "getPayload ev = Some p"
  have s1: "syntheticHeartbeat typeName ev s = s"
    using t by (simp add: syntheticHeartbeat_def)
  show "effects (resume (onGrpcStreamEvent typeName now ev s)) =
      effects s @ [Emit ''heartbeat'' p]"
    using switch_effects_heartbeat [OF t p]
    by (simp add: handler_run s1)
qed

theorem heartbeat_once_witness:
  "getType (messageEnvelope 6) \<noteq> EVENT_TYPE_HEARTBEAT
   \<and> effects (resume (onGrpcStreamEvent typeNames 2000 (messageEnvelope 6) session)) =
       [Emit ''heartbeat'' [(''data'', ''onGrpcStreamEvent(EVENT_TYPE_MESSAGE)'')],
        Emit ''message'' [(''messageId'', ''m1'')]]
   \<and> getType heartbeatEnvelope = EVENT_TYPE_HEARTBEAT
   \<and> getPayload heartbeatEnvelope = Some [(''data'', ''tick'')]
   \<and> effects (resume (onGrpcStreamEvent typeNames 2000 heartbeatEnvelope session)) =
       [Emit ''heartbeat'' [(''data'', ''tick'')]]"
proof -
  have m: "getType (messageEnvelope 6) \<noteq> EVENT_TYPE_HEARTBEAT"
    by (simp add: messageEnvelope_def)
  have h: "getType heartbeatEnvelope = EVENT_TYPE_HEARTBEAT"
    "getPayload heartbeatEnvelope = Some [(''data'', ''tick'')]"
    by (simp_all add: heartbeatEnvelope_def)
  have e: "effects session = []"
    by (simp add: session_def constructor_def)
  have one: "effects (resume (onGrpcStreamEvent typeNames 2000 heartbeatEnvelope session)) =
      [Emit ''heartbeat'' [(''data'', ''tick'')]]"
    using heartbeat_once [of heartbeatEnvelope typeNames 2000 session "[(''data'', ''tick'')]"] h e
    by simp
  obtain rest where rest:
    "effects (resume (onGrpcStreamEvent typeNames 2000 (messageEnvelope 6) session)) =
       effects session @ Emit ''heartbeat''
         [(''data'', ''onGrpcStreamEvent('' @ typeNames (getType (messageEnvelope 6)) @ '')'')] # rest"
    using heartbeat_once [of "messageEnvelope 6" typeNames 2000 session] m by blast
  have "rest = [Emit ''message'' [(''messageId'', ''m1'')]]"
    using rest by (simp add: run_defs)
  then have two: "effects (resume (onGrpcStreamEvent typeNames 2000 (messageEnvelope 6) session)) =
       [Emit ''heartbeat'' [(''data'', ''onGrpcStreamEvent(EVENT_TYPE_MESSAGE)'')],
        Emit ''message'' [(''messageId'', ''m1'')]]"
    using rest e by (simp add: typeNames_def messageEnvelope_def)
  show ?thesis
    using m h one two by simp
qed

end
